theory Spec2Isabelle
  imports Complex_Main "HOL-Library.Log_Nat"
begin

section \<open>Numbers of the program\<close>

text \<open>
  The program computes with IEEE 754 double precision numbers: the elements of the
  NumPy arrays, the results of \<^verbatim>\<open>np.mean\<close>, and Python's own \<^verbatim>\<open>float\<close>.
  A finite double is \<open>Fin r\<close> for the real number \<open>r\<close> it holds exactly (\<open>Fin 0\<close> is
  the positive zero), \<open>NZero\<close> is the negative zero, and the infinities and NaN are
  values of their own: a division by zero of a NumPy scalar does not raise, it yields
  one of them.
\<close>

datatype f64 = Fin real | NZero | PInf | NInf | NaN

fun fval :: "f64 \<Rightarrow> real" where
  "fval (Fin r) = r"
| "fval _ = 0"

fun is_finite :: "f64 \<Rightarrow> bool" where
  "is_finite (Fin r) = True"
| "is_finite NZero = True"
| "is_finite _ = False"

fun is_zero :: "f64 \<Rightarrow> bool" where
  "is_zero (Fin r) = (r = 0)"
| "is_zero NZero = True"
| "is_zero _ = False"

text \<open>The sign bit: \<open>True\<close> for a negative number, the negative zero included.\<close>

fun sign_bit :: "f64 \<Rightarrow> bool" where
  "sign_bit (Fin r) = (r < 0)"
| "sign_bit NZero = True"
| "sign_bit NInf = True"
| "sign_bit _ = False"

definition signed_zero :: "bool \<Rightarrow> f64" where
  "signed_zero neg = (if neg then NZero else Fin 0)"

definition signed_inf :: "bool \<Rightarrow> f64" where
  "signed_inf neg = (if neg then NInf else PInf)"

text \<open>Rounding to the nearest integer, ties to the even one (\<^verbatim>\<open>rint\<close>).\<close>

definition rint :: "real \<Rightarrow> int" where
  "rint x =
     (let f = \<lfloor>x\<rfloor>; d = x - of_int f
      in if d < 1 / 2 then f else if 1 / 2 < d then f + 1 else if even f then f else f + 1)"

text \<open>
  \<open>ilog2 a\<close> is the exponent of the positive real \<open>a\<close>: the integer \<open>e\<close> with
  \<open>2\<^sup>e \<le> a < 2\<^sup>e\<^sup>+\<^sup>1\<close>. \<open>pow2 k\<close> is \<open>2\<^sup>k\<close> for an integer \<open>k\<close>.
\<close>

definition ilog2 :: "real \<Rightarrow> int" where
  "ilog2 a = (if 1 \<le> a then bitlen \<lfloor>a\<rfloor> - 1 else - bitlen (\<lceil>1 / a\<rceil> - 1))"

definition pow2 :: "int \<Rightarrow> real" where
  "pow2 k = (if 0 \<le> k then 2 ^ nat k else 1 / 2 ^ nat (- k))"

text \<open>
  \<open>f64_of x\<close> is the double that the real number \<open>x\<close> rounds to: the nearest value
  with 53 significant bits, ties to the even significand; subnormal below
  \<open>2\<^sup>-\<^sup>1\<^sup>0\<^sup>2\<^sup>2\<close>, a zero of the sign of \<open>x\<close> when the result underflows, an infinity
  when it reaches \<open>2\<^sup>1\<^sup>0\<^sup>2\<^sup>4\<close>. It is the value of a decimal literal, of a parsed
  token, and of every arithmetic operation on its exact result. With \<open>a = \<bar>x\<bar>\<close> and
  its exponent \<open>e\<close>, the unit in the last place is \<open>u = 2\<^sup>m\<^sup>a\<^sup>x\<^sup>(\<^sup>e\<^sup>,\<^sup>-\<^sup>1\<^sup>0\<^sup>2\<^sup>2\<^sup>)\<^sup>-\<^sup>5\<^sup>2\<close> and the
  significand is \<open>m = rint (a / u)\<close>.
\<close>

definition f64_pack :: "bool \<Rightarrow> int \<Rightarrow> int \<Rightarrow> real \<Rightarrow> f64" where
  "f64_pack neg e m u =
     (if e = 1023 \<and> m = 9007199254740992 then signed_inf neg
      else if m = 0 then signed_zero neg
      else Fin (if neg then - (of_int m * u) else of_int m * u))"

definition f64_scale :: "bool \<Rightarrow> real \<Rightarrow> int \<Rightarrow> real \<Rightarrow> f64" where
  "f64_scale neg a e u = f64_pack neg e (rint (a / u)) u"

definition f64_round :: "bool \<Rightarrow> real \<Rightarrow> int \<Rightarrow> f64" where
  "f64_round neg a e =
     (if 1023 < e then signed_inf neg else f64_scale neg a e (pow2 (max e (- 1022) - 52)))"

definition f64_of :: "real \<Rightarrow> f64" where
  "f64_of x = (if x = 0 then Fin 0 else f64_round (x < 0) \<bar>x\<bar> (ilog2 \<bar>x\<bar>))"

fun fneg :: "f64 \<Rightarrow> f64" where
  "fneg (Fin r) = (if r = 0 then NZero else Fin (- r))"
| "fneg NZero = Fin 0"
| "fneg PInf = NInf"
| "fneg NInf = PInf"
| "fneg NaN = NaN"

fun fadd :: "f64 \<Rightarrow> f64 \<Rightarrow> f64" where
  "fadd NaN y = NaN"
| "fadd x NaN = NaN"
| "fadd PInf NInf = NaN"
| "fadd NInf PInf = NaN"
| "fadd PInf y = PInf"
| "fadd x PInf = PInf"
| "fadd NInf y = NInf"
| "fadd x NInf = NInf"
| "fadd NZero y = y"
| "fadd x NZero = x"
| "fadd (Fin a) (Fin b) = f64_of (a + b)"

definition fsub :: "f64 \<Rightarrow> f64 \<Rightarrow> f64" where
  "fsub x y = fadd x (fneg y)"

definition fmul :: "f64 \<Rightarrow> f64 \<Rightarrow> f64" where
  "fmul x y =
     (if x = NaN \<or> y = NaN then NaN
      else if is_finite x \<and> is_finite y then
        (if is_zero x \<or> is_zero y then signed_zero (sign_bit x \<noteq> sign_bit y)
         else f64_of (fval x * fval y))
      else if is_zero x \<or> is_zero y then NaN
      else signed_inf (sign_bit x \<noteq> sign_bit y))"

text \<open>
  IEEE division, as NumPy performs it under its default error settings (a warning is
  printed, nothing is raised): a nonzero number over zero is an infinity, zero over zero
  and infinity over infinity are NaN.
\<close>

definition fdiv :: "f64 \<Rightarrow> f64 \<Rightarrow> f64" where
  "fdiv x y =
     (if x = NaN \<or> y = NaN then NaN
      else if is_finite x \<and> is_finite y then
        (if is_zero y then (if is_zero x then NaN else signed_inf (sign_bit x \<noteq> sign_bit y))
         else if is_zero x then signed_zero (sign_bit x \<noteq> sign_bit y)
         else f64_of (fval x / fval y))
      else if is_finite x then signed_zero (sign_bit x \<noteq> sign_bit y)
      else if is_finite y then signed_inf (sign_bit x \<noteq> sign_bit y)
      else NaN)"

text \<open>
  \<open>f_le x y\<close> is \<^verbatim>\<open>x <= y\<close> and \<open>f_lt x y\<close> is \<^verbatim>\<open>x < y\<close>: false as soon as one
  side is NaN.
\<close>

fun f_le :: "f64 \<Rightarrow> f64 \<Rightarrow> bool" where
  "f_le NaN y = False"
| "f_le x NaN = False"
| "f_le NInf y = True"
| "f_le x PInf = True"
| "f_le PInf y = False"
| "f_le x NInf = False"
| "f_le x y = (fval x \<le> fval y)"

definition f_lt :: "f64 \<Rightarrow> f64 \<Rightarrow> bool" where
  "f_lt x y = (f_le x y \<and> \<not> f_le y x)"

text \<open>\<^verbatim>\<open>np.rint\<close> on a double: the nearest integer, ties to even, the sign kept.\<close>

fun f_rint :: "f64 \<Rightarrow> f64" where
  "f_rint (Fin x) = (if rint x = 0 then signed_zero (x < 0) else Fin (of_int (rint x)))"
| "f_rint x = x"

text \<open>
  \<^verbatim>\<open>round(x, 2)\<close> on a NumPy double is \<^verbatim>\<open>x.round(2)\<close>, which NumPy computes as
  \<^verbatim>\<open>rint(x * 100.0) / 100.0\<close>, each of the three steps in double arithmetic.
\<close>

definition round2 :: "f64 \<Rightarrow> f64" where
  "round2 x = fdiv (f_rint (fmul x (Fin 100))) (Fin 100)"

text \<open>
  A number of the running program is a Python number (\<open>Py\<close>: the \<^verbatim>\<open>int\<close> and
  \<^verbatim>\<open>float\<close> values read from the JSON file, the literals, the parsed tokens) or a
  NumPy scalar (\<open>Np\<close>: an array element, a mean, and everything computed from one).
  The two kinds differ in one respect that the program can observe: dividing a Python
  number by a Python zero raises \<^verbatim>\<open>ZeroDivisionError\<close>, while a division that
  involves a NumPy scalar follows IEEE 754. A Python \<^verbatim>\<open>int\<close> is taken as the double of
  the same value, which is exact for the integers that a double holds.
\<close>

datatype pynum = Py f64 | Np f64

fun val :: "pynum \<Rightarrow> f64" where
  "val (Py x) = x"
| "val (Np x) = x"

fun is_py :: "pynum \<Rightarrow> bool" where
  "is_py (Py x) = True"
| "is_py (Np x) = False"

datatype exn = ZeroDivisionError | ValueError | IndexError

definition num_op :: "(f64 \<Rightarrow> f64 \<Rightarrow> f64) \<Rightarrow> pynum \<Rightarrow> pynum \<Rightarrow> pynum" where
  "num_op f a b = (if is_py a \<and> is_py b then Py (f (val a) (val b)) else Np (f (val a) (val b)))"

definition py_add :: "pynum \<Rightarrow> pynum \<Rightarrow> pynum" where
  "py_add = num_op fadd"

definition py_sub :: "pynum \<Rightarrow> pynum \<Rightarrow> pynum" where
  "py_sub = num_op fsub"

definition py_mul :: "pynum \<Rightarrow> pynum \<Rightarrow> pynum" where
  "py_mul = num_op fmul"

definition py_div :: "pynum \<Rightarrow> pynum \<Rightarrow> exn + pynum" where
  "py_div a b =
     (if is_py a \<and> is_py b \<and> is_zero (val b) then Inl ZeroDivisionError
      else Inr (num_op fdiv a b))"

text \<open>Sequencing of a step that may raise.\<close>

definition and_then :: "exn + 'a \<Rightarrow> ('a \<Rightarrow> exn + 'b) \<Rightarrow> exn + 'b" where
  "and_then r k = (case r of Inl e \<Rightarrow> Inl e | Inr v \<Rightarrow> k v)"

text \<open>
  \<^verbatim>\<open>np.mean\<close> of an array of doubles is \<^verbatim>\<open>np.add.reduce\<close> over the number of
  elements. The reduction starts from 0.0 and adds NumPy's pairwise sum of the array:
  fewer than 8 elements are added one after the other; up to 128 elements are added
  into 8 accumulators, which are then combined as a tree, and the remaining elements
  are added to the result one after the other; a longer array is split in two. On an
  empty array the mean is 0/0, that is NaN (with a warning).
\<close>

function add_blocks :: "f64 list \<Rightarrow> f64 list \<Rightarrow> f64 list \<times> f64 list" where
  "add_blocks r xs =
     (if 8 \<le> length xs then add_blocks (map2 fadd r (take 8 xs)) (drop 8 xs) else (r, xs))"
  by pat_completeness auto
termination
  by (relation "measure (\<lambda>(r, xs). length xs)") auto

definition tree8 :: "f64 list \<Rightarrow> f64" where
  "tree8 r =
     fadd (fadd (fadd (r ! 0) (r ! 1)) (fadd (r ! 2) (r ! 3)))
          (fadd (fadd (r ! 4) (r ! 5)) (fadd (r ! 6) (r ! 7)))"

function pairwise_sum :: "f64 list \<Rightarrow> f64" where
  "pairwise_sum a =
     (if length a < 8 then foldl fadd (Fin 0) a
      else if length a \<le> 128 then
        (case add_blocks (take 8 a) (drop 8 a) of (r, rest) \<Rightarrow> foldl fadd (tree8 r) rest)
      else
        fadd (pairwise_sum (take (length a div 2 - (length a div 2) mod 8) a))
             (pairwise_sum (drop (length a div 2 - (length a div 2) mod 8) a)))"
  by pat_completeness auto
termination
  by (relation "measure length") auto

declare add_blocks.simps [simp del] pairwise_sum.simps [simp del]

definition np_sum :: "f64 list \<Rightarrow> f64" where
  "np_sum a = fadd (Fin 0) (pairwise_sum a)"

definition np_mean :: "f64 list \<Rightarrow> pynum" where
  "np_mean ys = Np (fdiv (np_sum ys) (Fin (real (length ys))))"

section \<open>Calibration dictionary and its file\<close>

text \<open>
  \<^verbatim>\<open>ph_cal_dict\<close> has the same five keys in every state the program builds; it is
  modelled as a record of them. \<^verbatim>\<open>json.dump\<close> followed by \<^verbatim>\<open>json.load\<close> is taken
  as the identity on it, so the file \<^verbatim>\<open>ph.json\<close> is \<open>None\<close> when absent and
  \<open>Some d\<close> when it holds the dictionary \<open>d\<close>. The four constants are numbers: a
  file that lacks a key, or holds under it something else than a number or an integer
  that no double holds exactly, is outside this type, and so are the errors that such a
  file leads to.
\<close>

record cal_dict =
  Equations :: string
  ph7_cal :: pynum
  ph4_cal :: pynum
  ph10_cal :: pynum
  T :: pynum

definition default_cal_dict :: cal_dict where
  "default_cal_dict =
     \<lparr> Equations = ''E = k1*T - k2*T*(pH - pH7)'',
       ph7_cal = Py (Fin 0),
       ph4_cal = Py (Fin 180),
       ph10_cal = Py (Fin (- 180)),
       T = Py (Fin 300) \<rparr>"

text \<open>
  \<^verbatim>\<open>readJson\<close>: the dictionary it leaves in \<^verbatim>\<open>self.ph_cal_dict\<close> and the file
  afterwards.
\<close>

definition readJson :: "cal_dict option \<Rightarrow> cal_dict \<times> cal_dict option" where
  "readJson file =
     (case file of
        Some d \<Rightarrow> (d, file)
      | None \<Rightarrow> (default_cal_dict, Some default_cal_dict))"

section \<open>Program state\<close>

text \<open>
  The fields of the application window that the handlers read and write. The two plot
  canvases \<^verbatim>\<open>ph_plot\<close> and \<^verbatim>\<open>temp_plot\<close> hold the bounded windows in their
  \<^verbatim>\<open>y\<close> arrays, \<^verbatim>\<open>ph_full_plot\<close> holds the whole trend. The two LCD fields
  are the values last passed to \<^verbatim>\<open>display\<close>. \<open>log_file\<close> is the content of the
  session file \<^verbatim>\<open>self.filename\<close>, one entry per line written; a record line is
  the list of its six fields, each standing for the \<^verbatim>\<open>str\<close> of the value, which
  the source joins with four spaces. Drawing (\<^verbatim>\<open>set_ydata\<close>, \<^verbatim>\<open>draw\<close>, the labels)
  changes none of these fields and is left out, except for the one drawing call that
  can raise, \<^verbatim>\<open>set_ylim\<close>.
\<close>

datatype log_line = Comment string | Record "pynum list"

record state =
  ph_cal_dict :: cal_dict
  json_file :: "cal_dict option"
  temp_y :: "f64 list"
  ph_y :: "f64 list"
  ph_full_x :: "int list"
  ph_full_y :: "f64 list"
  data :: "pynum list"
  data_pH :: "pynum option"
  temp_lcd :: "pynum option"
  ph_lcd :: "pynum option"
  timer1_active :: bool
  log_file :: "log_line list"

text \<open>
  \<^verbatim>\<open>ApplicationWindow.__init__\<close>: every canvas starts from
  \<^verbatim>\<open>compute_initial_figure\<close> with \<^verbatim>\<open>x = np.arange(10)\<close> and
  \<^verbatim>\<open>y = np.zeros(10)\<close>, then \<^verbatim>\<open>readJson\<close> runs on the file found on disk.
\<close>

definition init_state :: "cal_dict option \<Rightarrow> state" where
  "init_state file =
     \<lparr> ph_cal_dict = fst (readJson file),
       json_file = snd (readJson file),
       temp_y = replicate 10 (Fin 0),
       ph_y = replicate 10 (Fin 0),
       ph_full_x = map int [0 ..< 10],
       ph_full_y = replicate 10 (Fin 0),
       data = [],
       data_pH = None,
       temp_lcd = None,
       ph_lcd = None,
       timer1_active = False,
       log_file = [] \<rparr>"

section \<open>Calibration buttons\<close>

text \<open>
  \<^verbatim>\<open>round(x, 2)\<close> is only ever applied to a NumPy scalar (a mean, or a value computed
  from one); the result is a NumPy scalar.
\<close>

definition np_round2 :: "pynum \<Rightarrow> pynum" where
  "np_round2 a = Np (round2 (val a))"

definition ph7CalButton :: "state \<Rightarrow> state" where
  "ph7CalButton s =
     (let d1 = (ph_cal_dict s)\<lparr>ph7_cal := np_round2 (np_mean (ph_y s))\<rparr>;
          d2 = d1\<lparr>T := py_add (np_round2 (np_mean (temp_y s))) (Py (f64_of 273.15))\<rparr>
      in s\<lparr>ph_cal_dict := d2\<rparr>)"

definition ph4CalButton :: "state \<Rightarrow> state" where
  "ph4CalButton s =
     s\<lparr>ph_cal_dict := (ph_cal_dict s)\<lparr>ph4_cal := np_round2 (np_mean (ph_y s))\<rparr>\<rparr>"

definition ph10CalButton :: "state \<Rightarrow> state" where
  "ph10CalButton s =
     s\<lparr>ph_cal_dict := (ph_cal_dict s)\<lparr>ph10_cal := np_round2 (np_mean (ph_y s))\<rparr>\<rparr>"

section \<open>Evaluation of the pH\<close>

definition py_le :: "pynum \<Rightarrow> pynum \<Rightarrow> bool" where
  "py_le a b = f_le (val a) (val b)"

text \<open>
  \<^verbatim>\<open>evalPH\<close>, statement by statement. It reads the calibration dictionary and the
  means of the two windows; it raises where a division of Python numbers meets a zero
  divisor, and returns the integer 0 or 14 or the rounded value. The source writes
  \<^verbatim>\<open>np.mean(self.temp_plot.y)+273.15\<close> out at each of its uses; here it is
  \<open>t_now\<close>.
\<close>

definition evalPH :: "state \<Rightarrow> exn + pynum" where
  "evalPH s =
     (let ph7 = ph7_cal (ph_cal_dict s);
          ph4 = ph4_cal (ph_cal_dict s);
          ph10 = ph10_cal (ph_cal_dict s);
          t = T (ph_cal_dict s);
          t_now = py_add (np_mean (temp_y s)) (Py (f64_of 273.15))
      in and_then (py_div ph7 t) (\<lambda>k1.
         let delta_mv = py_sub (np_mean (ph_y s)) (py_mul k1 t_now)
         in and_then
              (if py_le (Py (Fin 0)) delta_mv then
                 and_then (py_div (py_sub ph4 ph7) (Py (Fin 3))) (\<lambda>a.
                 and_then (py_div a t) (\<lambda>b.
                 and_then (py_div delta_mv (py_mul b t_now)) (\<lambda>c.
                 Inr (py_sub (Py (Fin 7)) c))))
               else
                 and_then (py_div (py_sub ph7 ph10) (Py (Fin 3))) (\<lambda>a.
                 and_then (py_div a t) (\<lambda>b.
                 and_then (py_div delta_mv (py_mul b t_now)) (\<lambda>c.
                 Inr (py_sub (Py (Fin 7)) c)))))
              (\<lambda>pH0.
                 let pH = np_round2 pH0
                 in if py_le pH (Py (Fin 0)) then Inr (Py (Fin 0))
                    else if py_le (Py (Fin 14)) pH then Inr (Py (Fin 14))
                    else Inr pH)))"

section \<open>Reading a line\<close>

text \<open>
  \<^verbatim>\<open>line.split()\<close> on bytes: the maximal runs of bytes that are not ASCII
  whitespace.
\<close>

definition is_space :: "char \<Rightarrow> bool" where
  "is_space c = (c \<in> set [CHR '' '', CHR 0x09, CHR 0x0A, CHR 0x0B, CHR 0x0C, CHR 0x0D])"

fun split_acc :: "string \<Rightarrow> string \<Rightarrow> string list" where
  "split_acc cur [] = (if cur = [] then [] else [cur])"
| "split_acc cur (c # cs) =
     (if is_space c then (if cur = [] then split_acc [] cs else cur # split_acc [] cs)
      else split_acc (cur @ [c]) cs)"

definition split_ws :: "string \<Rightarrow> string list" where
  "split_ws line = split_acc [] line"

text \<open>
  \<^verbatim>\<open>float(token)\<close> on a token without whitespace, after the grammar of the language
  reference: an optional sign, then \<^verbatim>\<open>inf\<close>, \<^verbatim>\<open>infinity\<close> or \<^verbatim>\<open>nan\<close> in any
  case, or a decimal number with an optional exponent, where digits may be grouped by
  single underscores. The value is the double nearest to the number written.
  \<open>None\<close> stands for \<^verbatim>\<open>ValueError\<close>.
\<close>

definition is_digit :: "char \<Rightarrow> bool" where
  "is_digit c = (c \<in> set ''0123456789'')"

definition digit_val :: "char \<Rightarrow> int" where
  "digit_val c = of_char c - 48"

definition digits_val :: "string \<Rightarrow> int" where
  "digits_val ds = foldl (\<lambda>n c. 10 * n + digit_val c) 0 ds"

fun digitpart :: "string \<Rightarrow> string option" where
  "digitpart [] = None"
| "digitpart [c] = (if is_digit c then Some [c] else None)"
| "digitpart (c # d # cs) =
     (if is_digit c then
        (if d = CHR ''_'' then map_option ((#) c) (digitpart cs)
         else map_option ((#) c) (digitpart (d # cs)))
      else None)"

definition split_at :: "(char \<Rightarrow> bool) \<Rightarrow> string \<Rightarrow> string \<times> string option" where
  "split_at p s =
     (case dropWhile (\<lambda>c. \<not> p c) s of
        [] \<Rightarrow> (s, None)
      | c # r \<Rightarrow> (takeWhile (\<lambda>c. \<not> p c) s, Some r))"

definition frac :: "string \<Rightarrow> real" where
  "frac ds = real_of_int (digits_val ds) / 10 ^ length ds"

definition number :: "string \<Rightarrow> real option" where
  "number s =
     (case split_at (\<lambda>c. c = CHR ''.'') s of
        (ip, None) \<Rightarrow> map_option (\<lambda>ds. real_of_int (digits_val ds)) (digitpart ip)
      | (ip, Some fp) \<Rightarrow>
          (if ip = [] then map_option frac (digitpart fp)
           else (case digitpart ip of
                   None \<Rightarrow> None
                 | Some i \<Rightarrow>
                     (if fp = [] then Some (real_of_int (digits_val i))
                      else map_option (\<lambda>f. real_of_int (digits_val i) + frac f) (digitpart fp)))))"

definition exponent :: "string \<Rightarrow> int option" where
  "exponent s =
     (case s of
        [] \<Rightarrow> None
      | c # cs \<Rightarrow>
          (if c = CHR ''-'' then map_option (\<lambda>ds. - digits_val ds) (digitpart cs)
           else if c = CHR ''+'' then map_option digits_val (digitpart cs)
           else map_option digits_val (digitpart s)))"

definition floatnumber :: "string \<Rightarrow> real option" where
  "floatnumber s =
     (case split_at (\<lambda>c. c = CHR ''e'' \<or> c = CHR ''E'') s of
        (m, None) \<Rightarrow> number m
      | (m, Some e) \<Rightarrow>
          (case (number m, exponent e) of
             (Some x, Some k) \<Rightarrow>
               Some (if 0 \<le> k then x * 10 ^ nat k else x / 10 ^ nat (- k))
           | _ \<Rightarrow> None))"

definition lower :: "char \<Rightarrow> char" where
  "lower c =
     (if (65::nat) \<le> of_char c \<and> of_char c \<le> (90::nat) then char_of (of_char c + (32::nat))
      else c)"

definition py_float :: "string \<Rightarrow> f64 option" where
  "py_float tok =
     (let neg = (case tok of c # cs \<Rightarrow> c = CHR ''-'' | [] \<Rightarrow> False);
          r = (case tok of c # cs \<Rightarrow> if c = CHR ''-'' \<or> c = CHR ''+'' then cs else tok
               | [] \<Rightarrow> [])
      in if map lower r = ''inf'' \<or> map lower r = ''infinity'' then Some (signed_inf neg)
         else if map lower r = ''nan'' then Some NaN
         else (case floatnumber r of
                 None \<Rightarrow> None
               | Some x \<Rightarrow>
                   Some (if x = 0 then signed_zero neg
                         else f64_of (if neg then - x else x))))"

section \<open>The tick handler\<close>

text \<open>
  \<^verbatim>\<open>updateFigs\<close> on the line that \<^verbatim>\<open>readline\<close> returned. The result is the
  exception that left the handler, if any, and the state at that moment: an exception
  undoes nothing of what the statements before it have written. The three labels that
  the handler rewrites, and the horizontal limits of the trend plot, are left out: they
  raise nothing for constants that are numbers, and nothing reads them.
\<close>

definition push :: "f64 list \<Rightarrow> f64 \<Rightarrow> f64 list" where
  "push ys v = tl (ys @ [v])"

text \<open>
  Python's \<^verbatim>\<open>min\<close> and \<^verbatim>\<open>max\<close> over an array: the first element, replaced by each
  later element that compares smaller (larger). A NaN compares neither, so it is the
  result only when it comes first.
\<close>

definition py_min :: "f64 list \<Rightarrow> f64" where
  "py_min ys = foldl (\<lambda>cur item. if f_lt item cur then item else cur) (hd ys) (tl ys)"

definition py_max :: "f64 list \<Rightarrow> f64" where
  "py_max ys = foldl (\<lambda>cur item. if f_lt cur item then item else cur) (hd ys) (tl ys)"

text \<open>
  \<^verbatim>\<open>axes.set_ylim(min(y)-1, max(y)+1)\<close> returns when \<open>ylim_ok y\<close> holds and raises
  \<^verbatim>\<open>ValueError\<close> otherwise: Matplotlib refuses a limit that is NaN or infinite
  (and \<^verbatim>\<open>min\<close> of an empty array raises \<^verbatim>\<open>ValueError\<close> itself).
\<close>

definition ylim_ok :: "f64 list \<Rightarrow> bool" where
  "ylim_ok ys =
     (ys \<noteq> [] \<and> is_finite (fsub (py_min ys) (Fin 1)) \<and> is_finite (fadd (py_max ys) (Fin 1)))"

definition updateFigs :: "string \<Rightarrow> state \<Rightarrow> exn option \<times> state" where
  "updateFigs line s =
     (case those (map py_float (split_ws line)) of
        None \<Rightarrow> (Some ValueError, s)
      | Some vs \<Rightarrow>
          (let s1 = s\<lparr>data := map Py vs\<rparr>
           in if length (data s1) = 4 then
                (let d0 = data s1 ! 0; d1 = data s1 ! 1; d2 = data s1 ! 2; d3 = data s1 ! 3;
                     s2 = s1\<lparr>temp_lcd := Some d0, temp_y := push (temp_y s1) (val d0)\<rparr>
                 in if \<not> ylim_ok (temp_y s2) then (Some ValueError, s2)
                    else
                      (case evalPH s2 of
                         Inl e \<Rightarrow> (Some e, s2)
                       | Inr p \<Rightarrow>
                           (let s3 = s2\<lparr>data_pH := Some p, ph_lcd := Some p,
                                         ph_y := push (ph_y s2) (val (py_sub d3 d2))\<rparr>
                            in if \<not> ylim_ok (ph_y s3) then (Some ValueError, s3)
                               else
                                 (let s4 = s3\<lparr>ph_full_y :=
                                                 ph_full_y s3 @ [val (py_sub d3 d2)]\<rparr>
                                  in if ph_full_x s4 = [] then (Some IndexError, s4)
                                     else
                                       (let s5 = s4\<lparr>ph_full_x :=
                                               ph_full_x s4 @ [last (ph_full_x s4) + 1]\<rparr>
                                        in if \<not> ylim_ok (ph_full_y s5)
                                           then (Some ValueError, s5)
                                           else
                                             (None,
                                              s5\<lparr>log_file := log_file s5 @
                                                   [Record [d0, d1, d2, d3,
                                                            py_sub d3 d2, p]]\<rparr>))))))
              else (None, s1)))"

section \<open>Connecting, and runs of the program\<close>

text \<open>
  \<^verbatim>\<open>connectButton\<close> at the time stamp \<open>ts\<close> starts the timer and creates the
  session file with its four header lines; \<^verbatim>\<open>disconnectButton\<close> stops the timer.
  Opening the port and the files is taken to succeed.
\<close>

definition header :: "string \<Rightarrow> log_line list" where
  "header ts =
     [Comment ''# wireless pH sensor data log'',
      Comment (''# Date: '' @ ts),
      Comment (''# Temperature ('' @ [CHR 0xE2, CHR 0x84, CHR 0x83] @
               ''), Relative Humidity (%), Voltage of Ag/AgCl electrode (mV),'' @
               '' Voltage of pH electrode (mV), Voltage difference (mV),'' @
               '' Evaluated pH Value''),
      Comment ''# '']"

definition connectButton :: "string \<Rightarrow> state \<Rightarrow> state" where
  "connectButton ts s = s\<lparr>timer1_active := True, log_file := header ts\<rparr>"

definition disconnectButton :: "state \<Rightarrow> state" where
  "disconnectButton s = s\<lparr>timer1_active := False\<rparr>"

text \<open>
  What can happen to the window: the timer fires (only while it is active) with the line
  read from the port, or a button is pressed. A handler that raised leaves the state it
  had reached.
\<close>

datatype event = Tick string | Ph7Cal | Ph4Cal | Ph10Cal | Connect string | Disconnect

fun step :: "state \<Rightarrow> event \<Rightarrow> state" where
  "step s (Tick line) = (if timer1_active s then snd (updateFigs line s) else s)"
| "step s Ph7Cal = ph7CalButton s"
| "step s Ph4Cal = ph4CalButton s"
| "step s Ph10Cal = ph10CalButton s"
| "step s (Connect ts) = connectButton ts s"
| "step s Disconnect = disconnectButton s"

definition run :: "state \<Rightarrow> event list \<Rightarrow> state" where
  "run s evs = foldl step s evs"

section \<open>The specification's formula\<close>

text \<open>
  The conversion as the specification words it, in the double arithmetic of the program:
  \<open>t_k = temperature_celsius + 273.15\<close>,
  \<open>delta_mv = voltage_diff_mv - (offset_mv / temperature_k) * t_k\<close>, the slope
  \<open>(hi - lo) / 3 / temperature_k * t_k\<close> between two calibration points, the acid
  branch \<open>7 - delta_mv / slope\<close> over acid and offset when \<open>delta_mv \<ge> 0\<close> and the
  alkaline branch over offset and alkaline otherwise; the result is rounded to two
  decimal places and clamped to the interval from 0 to 14.
\<close>

definition spec_t_k :: "f64 \<Rightarrow> f64" where
  "spec_t_k temperature_celsius = fadd temperature_celsius (f64_of 273.15)"

definition spec_delta_mv :: "f64 \<Rightarrow> f64 \<Rightarrow> f64 \<Rightarrow> f64 \<Rightarrow> f64" where
  "spec_delta_mv voltage_diff_mv offset_mv temperature_k t_k =
     fsub voltage_diff_mv (fmul (fdiv offset_mv temperature_k) t_k)"

definition spec_slope :: "f64 \<Rightarrow> f64 \<Rightarrow> f64 \<Rightarrow> f64 \<Rightarrow> f64" where
  "spec_slope hi lo temperature_k t_k = fmul (fdiv (fdiv (fsub hi lo) (Fin 3)) temperature_k) t_k"

definition spec_branch :: "f64 \<Rightarrow> f64 \<Rightarrow> f64 \<Rightarrow> f64 \<Rightarrow> f64 \<Rightarrow> f64 \<Rightarrow> f64" where
  "spec_branch delta_mv offset_mv acid_mv alkaline_mv temperature_k t_k =
     (if f_le (Fin 0) delta_mv
      then fsub (Fin 7) (fdiv delta_mv (spec_slope acid_mv offset_mv temperature_k t_k))
      else fsub (Fin 7) (fdiv delta_mv (spec_slope offset_mv alkaline_mv temperature_k t_k)))"

definition spec_raw_pH :: "f64 \<Rightarrow> f64 \<Rightarrow> f64 \<Rightarrow> f64 \<Rightarrow> f64 \<Rightarrow> f64 \<Rightarrow> f64" where
  "spec_raw_pH voltage_diff_mv temperature_celsius offset_mv acid_mv alkaline_mv temperature_k =
     spec_branch
       (spec_delta_mv voltage_diff_mv offset_mv temperature_k (spec_t_k temperature_celsius))
       offset_mv acid_mv alkaline_mv temperature_k (spec_t_k temperature_celsius)"

definition clamp14 :: "f64 \<Rightarrow> f64" where
  "clamp14 r = (if f_le r (Fin 0) then Fin 0 else if f_le (Fin 14) r then Fin 14 else r)"

definition spec_evaluate :: "f64 \<Rightarrow> f64 \<Rightarrow> f64 \<Rightarrow> f64 \<Rightarrow> f64 \<Rightarrow> f64 \<Rightarrow> f64" where
  "spec_evaluate voltage_diff_mv temperature_celsius offset_mv acid_mv alkaline_mv temperature_k =
     clamp14 (round2 (spec_raw_pH voltage_diff_mv temperature_celsius
                        offset_mv acid_mv alkaline_mv temperature_k))"

text \<open>
  \<^verbatim>\<open>capture_neutral\<close> as the specification words it: the offset is the mean of the
  voltage window rounded to two decimal places, the temperature is the mean of the
  temperature window converted to kelvin and then rounded to two decimal places.
\<close>

definition spec_capture_neutral :: "f64 list \<Rightarrow> f64 list \<Rightarrow> f64 \<times> f64" where
  "spec_capture_neutral recent_voltage_diffs recent_temperatures_celsius =
     (round2 (val (np_mean recent_voltage_diffs)),
      round2 (fadd (val (np_mean recent_temperatures_celsius)) (f64_of 273.15)))"

section \<open>Reading the program through the formula\<close>

text \<open>
  The one condition under which \<^verbatim>\<open>evalPH\<close> raises: \<^verbatim>\<open>ph7_cal/t\<close> divides a
  Python number by a Python zero.
\<close>

definition raises :: "state \<Rightarrow> bool" where
  "raises s = (is_py (ph7_cal (ph_cal_dict s)) \<and> is_py (T (ph_cal_dict s))
               \<and> is_zero (val (T (ph_cal_dict s))))"

text \<open>
  What \<^verbatim>\<open>evalPH\<close> returns for the rounded value \<open>r\<close>: the integer 0, the integer
  14, or \<open>r\<close> itself.
\<close>

definition returned :: "f64 \<Rightarrow> pynum" where
  "returned r = (if f_le r (Fin 0) then Py (Fin 0) else if f_le (Fin 14) r then Py (Fin 14) else Np r)"

text \<open>
  \<open>delta_mv\<close> as \<^verbatim>\<open>evalPH\<close> computes it in the state \<open>s\<close>, from the means of the two
  windows.
\<close>

definition window_delta_mv :: "state \<Rightarrow> f64" where
  "window_delta_mv s =
     spec_delta_mv (val (np_mean (ph_y s))) (val (ph7_cal (ph_cal_dict s)))
       (val (T (ph_cal_dict s))) (spec_t_k (val (np_mean (temp_y s))))"

text \<open>
  What every run keeps true of the windows: both bounded windows hold ten values and the
  index array of the trend is not empty.
\<close>

definition window_inv :: "state \<Rightarrow> bool" where
  "window_inv s = (length (temp_y s) = 10 \<and> length (ph_y s) = 10 \<and> ph_full_x s \<noteq> [])"

section \<open>Concrete states\<close>



text \<open>
  A calibration file in which the acid constant equals the offset (both 0): the acid
  slope is zero, and the window means 50 and 25 select the acid branch.
\<close>

definition zero_slope_state :: state where
  "zero_slope_state =
     (init_state (Some (default_cal_dict\<lparr>ph4_cal := Py (Fin 0)\<rparr>)))
       \<lparr>ph_y := [Fin 50, Fin 50, Fin 50, Fin 50, Fin 50, Fin 50, Fin 50, Fin 50, Fin 50, Fin 50],
        temp_y := [Fin 25, Fin 25, Fin 25, Fin 25, Fin 25, Fin 25, Fin 25, Fin 25, Fin 25, Fin 25]\<rparr>"

text \<open>A calibration file whose calibration temperature is the number 0.\<close>

definition zero_T_state :: state where
  "zero_T_state = init_state (Some (default_cal_dict\<lparr>T := Py (Fin 0)\<rparr>))"

text \<open>A calibration file whose offset is 30.\<close>

definition offset30_state :: state where
  "offset30_state = init_state (Some (default_cal_dict\<lparr>ph7_cal := Py (Fin 30)\<rparr>))"


text \<open>
  A fresh start whose temperature window holds ten readings of -273.15 degrees, after
  \<^verbatim>\<open>ph7CalButton\<close>: the calibration temperature is then the NumPy scalar 0.
\<close>

definition absolute_zero_state :: state where
  "absolute_zero_state =
     ph7CalButton
       ((init_state None)
          \<lparr>temp_y := [f64_of (- 273.15), f64_of (- 273.15), f64_of (- 273.15),
                      f64_of (- 273.15), f64_of (- 273.15), f64_of (- 273.15),
                      f64_of (- 273.15), f64_of (- 273.15), f64_of (- 273.15),
                      f64_of (- 273.15)]\<rparr>)"

text \<open>A first start without calibration file, connected.\<close>

definition fresh_connected :: state where
  "fresh_connected = run (init_state None) [Connect ''20170901_10_00_00'']"

text \<open>A start on a calibration file whose temperature is 0, connected.\<close>

definition zero_T_connected :: state where
  "zero_T_connected = run zero_T_state [Connect ''20170901_10_00_00'']"

text \<open>
  The windows after a single sample at 3.75 degrees: the mean of the temperature window
  is 0.375, half way between 0.37 and 0.38.
\<close>

definition tie_state :: state where
  "tie_state =
     (init_state None)
       \<lparr>temp_y := [Fin 0, Fin 0, Fin 0, Fin 0, Fin 0, Fin 0, Fin 0, Fin 0, Fin 0, Fin 3.75]\<rparr>"

text \<open>Scenario 2 of the specification: the two windows it names.\<close>

definition scenario2 :: state where
  "scenario2 =
     (init_state None)\<lparr>ph_y := [Fin 10, Fin 12, Fin 11], temp_y := [Fin 25, Fin 25, Fin 26]\<rparr>"

section \<open>Theorems\<close>

subsection \<open>Evaluating the arithmetic\<close>

named_theorems f64_eval

lemmas [f64_eval] = f64_of_def f64_round_def f64_scale_def f64_pack_def ilog2_def pow2_def
  rint_def compute_bitlen signed_inf_def signed_zero_def fsub_def fmul_def fdiv_def round2_def
  f_lt_def np_sum_def np_mean_def tree8_def pairwise_sum.simps add_blocks.simps
  spec_t_k_def spec_delta_mv_def spec_slope_def spec_branch_def spec_raw_pH_def

lemma mean_zeros:
  "np_mean [Fin 0, Fin 0, Fin 0, Fin 0, Fin 0, Fin 0, Fin 0, Fin 0, Fin 0, Fin 0] = Np (Fin 0)"
  by (simp add: f64_eval)

lemma mean_50s:
  "np_mean [Fin 50, Fin 50, Fin 50, Fin 50, Fin 50, Fin 50, Fin 50, Fin 50, Fin 50, Fin 50]
     = Np (Fin 50)"
  by (simp add: f64_eval)

lemma mean_25s:
  "np_mean [Fin 25, Fin 25, Fin 25, Fin 25, Fin 25, Fin 25, Fin 25, Fin 25, Fin 25, Fin 25]
     = Np (Fin 25)"
  by (simp add: f64_eval)


lemma mean_one_25:
  "np_mean [Fin 0, Fin 0, Fin 0, Fin 0, Fin 0, Fin 0, Fin 0, Fin 0, Fin 0, Fin 25]
     = Np (Fin (5 / 2))"
  by (simp add: f64_eval)

lemma mean_one_1000:
  "np_mean [Fin 0, Fin 0, Fin 0, Fin 0, Fin 0, Fin 0, Fin 0, Fin 0, Fin 0, Fin 1000]
     = Np (Fin 100)"
  by (simp add: f64_eval)


lemma replicate_10: "replicate 10 x = [x, x, x, x, x, x, x, x, x, x]"
  by (simp add: numeral_eq_Suc)


lemma returned_default_0_2_5:
  "returned (round2 (spec_raw_pH (Fin 0) (Fin (5 / 2)) (Fin 0) (Fin 180) (Fin (- 180)) (Fin 300)))
     = Np (Fin 7)"
  by (simp add: f64_eval returned_def)

lemma returned_default_100_2_5:
  "returned (round2 (spec_raw_pH (Fin 100) (Fin (5 / 2)) (Fin 0) (Fin 180) (Fin (- 180)) (Fin 300)))
     = Np (f64_of 5.19)"
  by (simp add: f64_eval returned_def)





lemma returned_zero_slope_50_25:
  "returned (round2 (spec_raw_pH (Fin 50) (Fin 25) (Fin 0) (Fin 0) (Fin (- 180)) (Fin 300)))
     = Py (Fin 0)"
  by (simp add: f64_eval returned_def)


subsection \<open>What \<^verbatim>\<open>evalPH\<close> returns\<close>

lemma val_num_op [simp]: "val (num_op f a b) = f (val a) (val b)"
  by (simp add: num_op_def)

lemma is_py_num_op [simp]: "is_py (num_op f a b) = (is_py a \<and> is_py b)"
  by (simp add: num_op_def)

lemma val_np_round2 [simp]: "val (np_round2 a) = round2 (val a)"
  by (simp add: np_round2_def)

lemma is_py_np_mean [simp]: "\<not> is_py (np_mean ys)"
  by (simp add: np_mean_def)

lemma val_returned: "val (returned r) = clamp14 r"
  by (simp add: returned_def clamp14_def)

lemma evalPH_raises: "raises s \<Longrightarrow> evalPH s = Inl ZeroDivisionError"
  by (simp add: evalPH_def raises_def py_div_def and_then_def Let_def)

lemma evalPH_value:
  assumes "\<not> raises s"
  shows "evalPH s =
           Inr (returned (round2 (spec_raw_pH (val (np_mean (ph_y s))) (val (np_mean (temp_y s)))
                  (val (ph7_cal (ph_cal_dict s))) (val (ph4_cal (ph_cal_dict s)))
                  (val (ph10_cal (ph_cal_dict s))) (val (T (ph_cal_dict s))))))"
  using assms
  by (auto simp add: evalPH_def raises_def py_div_def and_then_def Let_def returned_def
        np_round2_def py_sub_def py_add_def py_mul_def py_le_def spec_raw_pH_def spec_branch_def
        spec_delta_mv_def spec_slope_def spec_t_k_def)

lemma evalPH_spec:
  assumes "\<not> raises s"
  shows "\<exists>p. evalPH s = Inr p \<and>
           val p = spec_evaluate (val (np_mean (ph_y s))) (val (np_mean (temp_y s)))
                     (val (ph7_cal (ph_cal_dict s))) (val (ph4_cal (ph_cal_dict s)))
                     (val (ph10_cal (ph_cal_dict s))) (val (T (ph_cal_dict s)))"
  by (simp add: evalPH_value [OF assms] val_returned spec_evaluate_def)

lemma evalPH_Inl_iff: "evalPH s = Inl e \<longleftrightarrow> e = ZeroDivisionError \<and> raises s"
  using evalPH_raises [of s] evalPH_value [of s] by (cases "raises s") auto

lemma f64_of_not_NaN [simp]: "f64_of x \<noteq> NaN"
  by (simp add: f64_of_def f64_round_def f64_scale_def f64_pack_def signed_inf_def
        signed_zero_def)




text \<open>A zero slope.\<close>

lemma fsub_same_zero:
  "is_finite x \<Longrightarrow> is_finite y \<Longrightarrow> fval x = fval y \<Longrightarrow> is_zero (fsub x y)"
  by (cases x; cases y) (auto simp add: fsub_def f64_of_def)

lemma spec_slope_zero:
  assumes "is_zero (fsub hi lo)"
  shows "is_zero (spec_slope hi lo tk t_k) \<or> spec_slope hi lo tk t_k = NaN"
proof -
  have a: "is_zero (fdiv (fsub hi lo) (Fin 3))"
    using assms by (cases "fsub hi lo") (simp_all add: fdiv_def signed_zero_def)
  have b: "is_zero (fdiv z tk) \<or> fdiv z tk = NaN" if "is_zero z" for z
    using that by (cases z; cases tk) (simp_all add: fdiv_def signed_zero_def)
  have c: "is_zero (fmul w t_k) \<or> fmul w t_k = NaN" if "is_zero w \<or> w = NaN" for w
    using that by (cases w; cases t_k) (auto simp add: fmul_def signed_zero_def)
  from c [OF b [OF a]] show ?thesis
    by (simp add: spec_slope_def)
qed

lemma fdiv_zero_slope:
  assumes "is_zero sl \<or> sl = NaN"
  shows "fdiv d sl \<in> {PInf, NInf, NaN}"
  using assms by (cases d; cases sl) (auto simp add: fdiv_def signed_inf_def)

lemma clamp_of_infinite:
  assumes "q \<in> {PInf, NInf, NaN}"
  shows "clamp14 (round2 (fsub (Fin 7) q)) \<in> {Fin 0, Fin 14, NaN}"
  using assms
  by (auto simp add: fsub_def round2_def fmul_def fdiv_def signed_inf_def clamp14_def)

lemma spec_evaluate_zero_slope:
  assumes "f_le (Fin 0) (spec_delta_mv v offset tk (spec_t_k tc)) \<Longrightarrow> is_zero (fsub acid offset)"
    and "\<not> f_le (Fin 0) (spec_delta_mv v offset tk (spec_t_k tc))
         \<Longrightarrow> is_zero (fsub offset alkaline)"
  shows "spec_evaluate v tc offset acid alkaline tk \<in> {Fin 0, Fin 14, NaN}"
proof (cases "f_le (Fin 0) (spec_delta_mv v offset tk (spec_t_k tc))")
  case True
  from clamp_of_infinite [OF fdiv_zero_slope [OF spec_slope_zero [OF assms(1) [OF True]]]] True
  show ?thesis
    by (simp add: spec_evaluate_def spec_raw_pH_def spec_branch_def)
next
  case False
  from clamp_of_infinite [OF fdiv_zero_slope [OF spec_slope_zero [OF assms(2) [OF False]]]] False
  show ?thesis
    by (simp add: spec_evaluate_def spec_raw_pH_def spec_branch_def)
qed

subsection \<open>The tick handler and the runs\<close>

lemma length_push [simp]: "length (push ys v) = length ys"
  by (simp add: push_def)

lemma push_Cons [simp]: "push (y # ys) v = ys @ [v]"
  by (simp add: push_def)

lemma length4: "length vs = 4 \<Longrightarrow> \<exists>a b c d. vs = [a, b, c, d]"
  by (auto simp add: numeral_eq_Suc length_Suc_conv)

lemma evalPH_cong:
  "ph_cal_dict s = ph_cal_dict s' \<Longrightarrow> ph_y s = ph_y s' \<Longrightarrow> temp_y s = temp_y s'
   \<Longrightarrow> evalPH s = evalPH s'"
  by (simp add: evalPH_def)

lemma updateFigs_ValueError:
  "those (map py_float (split_ws line)) = None \<Longrightarrow> updateFigs line s = (Some ValueError, s)"
  by (simp add: updateFigs_def)

lemma updateFigs_other_count:
  "those (map py_float (split_ws line)) = Some vs \<Longrightarrow> length vs \<noteq> 4 \<Longrightarrow>
   updateFigs line s = (None, s\<lparr>data := map Py vs\<rparr>)"
  by (simp add: updateFigs_def)

lemma updateFigs_raise:
  assumes "those (map py_float (split_ws line)) = Some [a, b, c, d]"
    and "ylim_ok (push (temp_y s) a)"
    and "raises s"
  shows "updateFigs line s =
           (Some ZeroDivisionError,
            s\<lparr>data := [Py a, Py b, Py c, Py d], temp_lcd := Some (Py a),
               temp_y := push (temp_y s) a\<rparr>)"
proof -
  have "raises (s\<lparr>data := [Py a, Py b, Py c, Py d], temp_lcd := Some (Py a),
               temp_y := push (temp_y s) a\<rparr>)"
    using assms(3) by (simp add: raises_def)
  from evalPH_raises [OF this] assms(1,2) show ?thesis
    by (simp add: updateFigs_def Let_def)
qed

lemma updateFigs_accept:
  assumes "those (map py_float (split_ws line)) = Some [a, b, c, d]"
    and "ylim_ok (push (temp_y s) a)"
    and "evalPH (s\<lparr>data := [Py a, Py b, Py c, Py d], temp_lcd := Some (Py a),
                    temp_y := push (temp_y s) a\<rparr>) = Inr p"
    and "ylim_ok (push (ph_y s) (fsub d c))"
    and "ph_full_x s \<noteq> []"
    and "ylim_ok (ph_full_y s @ [fsub d c])"
  shows "updateFigs line s =
           (None,
            s\<lparr>data := [Py a, Py b, Py c, Py d], temp_lcd := Some (Py a),
               temp_y := push (temp_y s) a,
               data_pH := Some p, ph_lcd := Some p,
               ph_y := push (ph_y s) (fsub d c),
               ph_full_y := ph_full_y s @ [fsub d c],
               ph_full_x := ph_full_x s @ [last (ph_full_x s) + 1],
               log_file := log_file s @
                 [Record [Py a, Py b, Py c, Py d, Py (fsub d c), p]]\<rparr>)"
  using assms by (simp add: updateFigs_def Let_def py_sub_def num_op_def)

lemma updateFigs_completed_push:
  assumes "those (map py_float (split_ws line)) = Some [a, b, c, d]"
    and "fst (updateFigs line s) = None"
  shows "temp_y (snd (updateFigs line s)) = push (temp_y s) a
         \<and> ph_y (snd (updateFigs line s)) = push (ph_y s) (fsub d c)"
  using assms
  by (auto simp add: updateFigs_def Let_def py_sub_def num_op_def split: sum.splits if_splits)

lemma updateFigs_inv: "window_inv s \<Longrightarrow> window_inv (snd (updateFigs line s))"
  by (auto simp add: updateFigs_def Let_def window_inv_def split: option.splits sum.splits)

lemma step_inv: "window_inv s \<Longrightarrow> window_inv (step s ev)"
  by (cases ev)
     (simp_all add: updateFigs_inv,
      simp_all add: window_inv_def ph7CalButton_def ph4CalButton_def ph10CalButton_def
        connectButton_def disconnectButton_def Let_def)

lemma run_inv: "window_inv s \<Longrightarrow> window_inv (run s evs)"
  unfolding run_def by (induction evs arbitrary: s) (simp_all add: step_inv)

lemma init_inv: "window_inv (init_state stored)"
  by (simp add: window_inv_def init_state_def)

lemma fresh_connected_fields:
  "ph_cal_dict fresh_connected = default_cal_dict"
  "temp_y fresh_connected = [Fin 0, Fin 0, Fin 0, Fin 0, Fin 0, Fin 0, Fin 0, Fin 0, Fin 0, Fin 0]"
  "ph_y fresh_connected = [Fin 0, Fin 0, Fin 0, Fin 0, Fin 0, Fin 0, Fin 0, Fin 0, Fin 0, Fin 0]"
  "ph_full_y fresh_connected
     = [Fin 0, Fin 0, Fin 0, Fin 0, Fin 0, Fin 0, Fin 0, Fin 0, Fin 0, Fin 0]"
  "ph_full_x fresh_connected = map int [0 ..< 10]"
  by (simp_all add: fresh_connected_def run_def connectButton_def init_state_def readJson_def
        replicate_10)

lemma zero_T_connected_fields:
  "ph_cal_dict zero_T_connected = default_cal_dict\<lparr>T := Py (Fin 0)\<rparr>"
  "temp_y zero_T_connected = [Fin 0, Fin 0, Fin 0, Fin 0, Fin 0, Fin 0, Fin 0, Fin 0, Fin 0, Fin 0]"
  by (simp_all add: zero_T_connected_def zero_T_state_def run_def connectButton_def
        init_state_def readJson_def replicate_10)

lemma default_not_raising:
  "ph_cal_dict s = default_cal_dict \<Longrightarrow> \<not> raises s"
  by (simp add: raises_def default_cal_dict_def)

lemma evalPH_default:
  assumes "ph_cal_dict s = default_cal_dict"
  shows "evalPH s =
           Inr (returned (round2 (spec_raw_pH (val (np_mean (ph_y s))) (val (np_mean (temp_y s)))
                  (Fin 0) (Fin 180) (Fin (- 180)) (Fin 300))))"
  using evalPH_value [OF default_not_raising [OF assms]] assms
  by (simp add: default_cal_dict_def)

lemma ylim_ok_windows:
  "ylim_ok [Fin 0, Fin 0, Fin 0, Fin 0, Fin 0, Fin 0, Fin 0, Fin 0, Fin 0, Fin 25]"
  "ylim_ok [Fin 0, Fin 0, Fin 0, Fin 0, Fin 0, Fin 0, Fin 0, Fin 0, Fin 0, Fin 1000]"
  "ylim_ok [Fin 0, Fin 0, Fin 0, Fin 0, Fin 0, Fin 0, Fin 0, Fin 0, Fin 0, Fin 50]"
  "ylim_ok [Fin 0, Fin 0, Fin 0, Fin 0, Fin 0, Fin 0, Fin 0, Fin 0, Fin 0, Fin 90]"
  "ylim_ok [Fin 0, Fin 0, Fin 0, Fin 0, Fin 0, Fin 0, Fin 0, Fin 0, Fin 0, Fin 0, Fin 1000]"
  "ylim_ok [Fin 0, Fin 0, Fin 0, Fin 0, Fin 0, Fin 0, Fin 0, Fin 0, Fin 0, Fin 0, Fin 50]"
  "ylim_ok [Fin 0, Fin 0, Fin 0, Fin 0, Fin 0, Fin 0, Fin 0, Fin 0, Fin 0, Fin 0, Fin 90]"
  by (simp_all add: ylim_ok_def py_min_def py_max_def f64_eval)

lemma differences:
  "fsub (Fin 1000) (Fin 0) = Fin 1000"
  "fsub (Fin 50) (Fin 0) = Fin 50"
  "fsub (Fin 100) (Fin 10) = Fin 90"
  by (simp_all add: f64_eval)

text \<open>
  The first tick after a fresh start, on a line of four numbers with the temperature 25:
  the pH is evaluated over the all-zero voltage window and is 7.
\<close>

lemma first_tick:
  assumes "those (map py_float (split_ws line)) = Some [Fin 25, b, c, d]"
    and "ylim_ok (push (ph_y fresh_connected) (fsub d c))"
    and "ylim_ok (ph_full_y fresh_connected @ [fsub d c])"
  shows "updateFigs line fresh_connected =
           (None,
            fresh_connected
              \<lparr>data := [Py (Fin 25), Py b, Py c, Py d], temp_lcd := Some (Py (Fin 25)),
               temp_y := push (temp_y fresh_connected) (Fin 25),
               data_pH := Some (Np (Fin 7)), ph_lcd := Some (Np (Fin 7)),
               ph_y := push (ph_y fresh_connected) (fsub d c),
               ph_full_y := ph_full_y fresh_connected @ [fsub d c],
               ph_full_x := ph_full_x fresh_connected @ [last (ph_full_x fresh_connected) + 1],
               log_file := log_file fresh_connected @
                 [Record [Py (Fin 25), Py b, Py c, Py d, Py (fsub d c), Np (Fin 7)]]\<rparr>)"
proof -
  let ?s2 = "fresh_connected
              \<lparr>data := [Py (Fin 25), Py b, Py c, Py d], temp_lcd := Some (Py (Fin 25)),
               temp_y := push (temp_y fresh_connected) (Fin 25)\<rparr>"
  have t: "ylim_ok (push (temp_y fresh_connected) (Fin 25))"
    by (simp add: fresh_connected_fields ylim_ok_windows)
  have "ph_cal_dict ?s2 = default_cal_dict"
    by (simp add: fresh_connected_fields)
  from evalPH_default [OF this] have e: "evalPH ?s2 = Inr (Np (Fin 7))"
    by (simp add: fresh_connected_fields mean_zeros mean_one_25 returned_default_0_2_5)
  have x: "ph_full_x fresh_connected \<noteq> []"
    by (simp add: fresh_connected_fields)
  show ?thesis
    by (rule updateFigs_accept [OF assms(1) t e assms(2) x assms(3)])
qed

subsection \<open>The claims\<close>

text \<open>
  C8. When the calibration file does not exist, \<^verbatim>\<open>readJson\<close> yields the default
  constants (offset 0, acid 180, alkaline -180, temperature 300) and leaves a file that
  holds exactly this dictionary.
\<close>

theorem readJson_absent_defaults:
  "readJson None = (default_cal_dict, Some default_cal_dict)
   \<and> ph7_cal default_cal_dict = Py (Fin 0)
   \<and> ph4_cal default_cal_dict = Py (Fin 180)
   \<and> ph10_cal default_cal_dict = Py (Fin (- 180))
   \<and> T default_cal_dict = Py (Fin 300)"
  by (simp add: readJson_def default_cal_dict_def)










lemma zero_slope_state_fields:
  "ph_cal_dict zero_slope_state = default_cal_dict\<lparr>ph4_cal := Py (Fin 0)\<rparr>"
  "np_mean (ph_y zero_slope_state) = Np (Fin 50)"
  "np_mean (temp_y zero_slope_state) = Np (Fin 25)"
  by (simp_all add: zero_slope_state_def init_state_def readJson_def mean_50s mean_25s)

lemma zero_T_state_fields:
  "ph_cal_dict zero_T_state = default_cal_dict\<lparr>T := Py (Fin 0)\<rparr>"
  "ph_y zero_T_state = replicate 10 (Fin 0)"
  "temp_y zero_T_state = replicate 10 (Fin 0)"
  by (simp_all add: zero_T_state_def init_state_def readJson_def)


lemma absolute_zero_T:
  "fadd (round2 (val (np_mean [f64_of (- 273.15), f64_of (- 273.15), f64_of (- 273.15),
                      f64_of (- 273.15), f64_of (- 273.15), f64_of (- 273.15),
                      f64_of (- 273.15), f64_of (- 273.15), f64_of (- 273.15),
                      f64_of (- 273.15)]))) (f64_of 273.15) = Fin 0"
  by (simp add: f64_eval)

lemma absolute_zero_state_fields:
  "T (ph_cal_dict absolute_zero_state) = Np (Fin 0)"
  using absolute_zero_T
  by (simp add: absolute_zero_state_def ph7CalButton_def Let_def py_add_def num_op_def
        np_round2_def)

lemma delta_zero_slope_state:
  "spec_delta_mv (Fin 50) (Fin 0) (Fin 300) (spec_t_k (Fin 25)) = Fin 50"
  by (simp add: f64_eval)

text \<open>
  C3, as the specification states it, fails: with \<^verbatim>\<open>ph4_cal\<close> equal to
  \<^verbatim>\<open>ph7_cal\<close> (both 0) and a mean voltage of 50, \<^verbatim>\<open>evalPH\<close> is on the acid branch,
  its slope term is zero, and it returns the value 0 where the claim says it fails with an
  error.
\<close>

theorem evalPH_zero_slope_counterexample:
  "ph4_cal (ph_cal_dict zero_slope_state) = ph7_cal (ph_cal_dict zero_slope_state)
   \<and> np_mean (ph_y zero_slope_state) = Np (Fin 50)
   \<and> evalPH zero_slope_state = Inr (Py (Fin 0))"
proof -
  have "\<not> raises zero_slope_state"
    by (simp add: raises_def zero_slope_state_fields default_cal_dict_def)
  from evalPH_value [OF this] show ?thesis
    by (simp add: zero_slope_state_fields default_cal_dict_def returned_zero_slope_50_25)
qed

text \<open>
  C3, amended. \<^verbatim>\<open>evalPH\<close> raises \<^verbatim>\<open>ZeroDivisionError\<close> when the calibration
  temperature is zero and both it and the offset are Python numbers, as they are when
  read from the calibration file: \<^verbatim>\<open>ph7_cal/t\<close> is then a Python division by zero.
  When the calibration temperature is zero but one of the two is a NumPy scalar, as after
  \<^verbatim>\<open>ph7CalButton\<close>, it returns a value. When the slope term is zero because the two
  constants of the selected branch are equal finite numbers, and \<^verbatim>\<open>ph7_cal/t\<close> does
  not raise, it returns a value, which is 0, 14 or NaN: the division by the zero slope is
  a NumPy division, and yields an infinity or NaN.
\<close>

theorem evalPH_zero_slope_returns:
  "(is_py (ph7_cal (ph_cal_dict s)) \<and> is_py (T (ph_cal_dict s))
      \<and> is_zero (val (T (ph_cal_dict s)))
    \<longrightarrow> evalPH s = Inl ZeroDivisionError)
   \<and> (is_zero (val (T (ph_cal_dict s)))
      \<and> \<not> (is_py (ph7_cal (ph_cal_dict s)) \<and> is_py (T (ph_cal_dict s)))
    \<longrightarrow> (\<exists>p. evalPH s = Inr p))
   \<and> (\<not> (is_py (ph7_cal (ph_cal_dict s)) \<and> is_py (T (ph_cal_dict s))
          \<and> is_zero (val (T (ph_cal_dict s))))
      \<and> (f_le (Fin 0) (window_delta_mv s)
          \<longrightarrow> is_finite (val (ph4_cal (ph_cal_dict s)))
              \<and> is_finite (val (ph7_cal (ph_cal_dict s)))
              \<and> fval (val (ph4_cal (ph_cal_dict s))) = fval (val (ph7_cal (ph_cal_dict s))))
      \<and> (\<not> f_le (Fin 0) (window_delta_mv s)
          \<longrightarrow> is_finite (val (ph7_cal (ph_cal_dict s)))
              \<and> is_finite (val (ph10_cal (ph_cal_dict s)))
              \<and> fval (val (ph7_cal (ph_cal_dict s))) = fval (val (ph10_cal (ph_cal_dict s))))
    \<longrightarrow> (\<exists>p. evalPH s = Inr p \<and> val p \<in> {Fin 0, Fin 14, NaN}))"
proof (intro conjI impI)
  assume "is_py (ph7_cal (ph_cal_dict s)) \<and> is_py (T (ph_cal_dict s))
      \<and> is_zero (val (T (ph_cal_dict s)))"
  then show "evalPH s = Inl ZeroDivisionError"
    by (simp add: evalPH_raises raises_def)
next
  assume "is_zero (val (T (ph_cal_dict s)))
      \<and> \<not> (is_py (ph7_cal (ph_cal_dict s)) \<and> is_py (T (ph_cal_dict s)))"
  then have "\<not> raises s"
    by (auto simp add: raises_def)
  from evalPH_value [OF this] show "\<exists>p. evalPH s = Inr p"
    by blast
next
  assume a: "\<not> (is_py (ph7_cal (ph_cal_dict s)) \<and> is_py (T (ph_cal_dict s))
          \<and> is_zero (val (T (ph_cal_dict s))))
      \<and> (f_le (Fin 0) (window_delta_mv s)
          \<longrightarrow> is_finite (val (ph4_cal (ph_cal_dict s)))
              \<and> is_finite (val (ph7_cal (ph_cal_dict s)))
              \<and> fval (val (ph4_cal (ph_cal_dict s))) = fval (val (ph7_cal (ph_cal_dict s))))
      \<and> (\<not> f_le (Fin 0) (window_delta_mv s)
          \<longrightarrow> is_finite (val (ph7_cal (ph_cal_dict s)))
              \<and> is_finite (val (ph10_cal (ph_cal_dict s)))
              \<and> fval (val (ph7_cal (ph_cal_dict s))) = fval (val (ph10_cal (ph_cal_dict s))))"
  then have n: "\<not> raises s"
    by (simp add: raises_def)
  from a have z1: "is_zero (fsub (val (ph4_cal (ph_cal_dict s))) (val (ph7_cal (ph_cal_dict s))))"
    if "f_le (Fin 0) (window_delta_mv s)"
    using that by (simp add: fsub_same_zero)
  from a have z2: "is_zero (fsub (val (ph7_cal (ph_cal_dict s))) (val (ph10_cal (ph_cal_dict s))))"
    if "\<not> f_le (Fin 0) (window_delta_mv s)"
    using that by (simp add: fsub_same_zero)
  have "spec_evaluate (val (np_mean (ph_y s))) (val (np_mean (temp_y s)))
          (val (ph7_cal (ph_cal_dict s))) (val (ph4_cal (ph_cal_dict s)))
          (val (ph10_cal (ph_cal_dict s))) (val (T (ph_cal_dict s))) \<in> {Fin 0, Fin 14, NaN}"
    by (rule spec_evaluate_zero_slope) (use z1 z2 in \<open>simp_all add: window_delta_mv_def\<close>)
  with evalPH_spec [OF n] show "\<exists>p. evalPH s = Inr p \<and> val p \<in> {Fin 0, Fin 14, NaN}"
    by auto
qed

theorem evalPH_zero_slope_returns_witness:
  "f_le (Fin 0) (window_delta_mv zero_slope_state)
   \<and> is_finite (val (ph4_cal (ph_cal_dict zero_slope_state)))
   \<and> is_finite (val (ph7_cal (ph_cal_dict zero_slope_state)))
   \<and> fval (val (ph4_cal (ph_cal_dict zero_slope_state)))
       = fval (val (ph7_cal (ph_cal_dict zero_slope_state)))
   \<and> \<not> is_zero (val (T (ph_cal_dict zero_slope_state)))
   \<and> (\<exists>p. evalPH zero_slope_state = Inr p \<and> val p \<in> {Fin 0, Fin 14, NaN})
   \<and> is_py (ph7_cal (ph_cal_dict zero_T_state)) \<and> is_py (T (ph_cal_dict zero_T_state))
   \<and> is_zero (val (T (ph_cal_dict zero_T_state)))
   \<and> evalPH zero_T_state = Inl ZeroDivisionError
   \<and> is_zero (val (T (ph_cal_dict (absolute_zero_state))))
   \<and> \<not> is_py (T (ph_cal_dict (absolute_zero_state)))
   \<and> (\<exists>p. evalPH (absolute_zero_state) = Inr p)"
proof -
  have d: "f_le (Fin 0) (window_delta_mv zero_slope_state)"
    by (simp add: window_delta_mv_def zero_slope_state_fields default_cal_dict_def
          delta_zero_slope_state)
  have k: "is_finite (val (ph4_cal (ph_cal_dict zero_slope_state)))"
    "is_finite (val (ph7_cal (ph_cal_dict zero_slope_state)))"
    "fval (val (ph4_cal (ph_cal_dict zero_slope_state)))
       = fval (val (ph7_cal (ph_cal_dict zero_slope_state)))"
    "\<not> is_zero (val (T (ph_cal_dict zero_slope_state)))"
    by (simp_all add: zero_slope_state_fields default_cal_dict_def)
  have t: "is_py (ph7_cal (ph_cal_dict zero_T_state))" "is_py (T (ph_cal_dict zero_T_state))"
    "is_zero (val (T (ph_cal_dict zero_T_state)))"
    by (simp_all add: zero_T_state_fields default_cal_dict_def)
  have b: "is_zero (val (T (ph_cal_dict (absolute_zero_state))))"
    "\<not> is_py (T (ph_cal_dict (absolute_zero_state)))"
    by (simp_all add: absolute_zero_state_fields)
  from evalPH_zero_slope_returns [of zero_slope_state] d k
  have r1: "\<exists>p. evalPH zero_slope_state = Inr p \<and> val p \<in> {Fin 0, Fin 14, NaN}"
    by simp
  from evalPH_zero_slope_returns [of zero_T_state] t
  have r2: "evalPH zero_T_state = Inl ZeroDivisionError"
    by simp
  from evalPH_zero_slope_returns [of "absolute_zero_state"] b
  have r3: "\<exists>p. evalPH (absolute_zero_state) = Inr p"
    by simp
  from d k t b r1 r2 r3 show ?thesis
    by blast
qed




text \<open>
  C2. The line \<^verbatim>\<open>25.0 60.0 abc 100.0\<close> has four tokens of which one is not a
  number. \<^verbatim>\<open>updateFigs\<close> converts every token before it counts them, so
  \<^verbatim>\<open>float\<close> raises \<^verbatim>\<open>ValueError\<close> and the handler is left by this exception,
  where the claim has the line rejected without a crash. Nothing has been written at that
  moment: windows, log and displays are unchanged.
\<close>

theorem updateFigs_non_numeric_token_raises:
  "those (map py_float (split_ws ''25.0 60.0 abc 100.0'')) = None
   \<and> updateFigs ''25.0 60.0 abc 100.0'' s = (Some ValueError, s)"
proof -
  have "those (map py_float (split_ws ''25.0 60.0 abc 100.0'')) = None"
    by code_simp
  then show ?thesis
    by (simp add: updateFigs_ValueError)
qed

text \<open>
  C4. On an accepted sample the pH is evaluated before the voltage window receives the
  sample's voltage difference, where the claim has the window updated first. After a
  fresh start, the first line \<^verbatim>\<open>25.0 60.0 0.0 1000.0\<close> is accepted; the voltage
  window then ends with 1000, but the pH emitted and logged for this tick is 7, the value
  of the window of ten zeros. An evaluation over the window that holds the new difference
  gives 5.19.
\<close>

theorem updateFigs_evaluates_before_voltage_push:
  "fst (updateFigs ''25.0 60.0 0.0 1000.0'' fresh_connected) = None
   \<and> ph_y (snd (updateFigs ''25.0 60.0 0.0 1000.0'' fresh_connected))
       = [Fin 0, Fin 0, Fin 0, Fin 0, Fin 0, Fin 0, Fin 0, Fin 0, Fin 0, Fin 1000]
   \<and> data_pH (snd (updateFigs ''25.0 60.0 0.0 1000.0'' fresh_connected)) = Some (Np (Fin 7))
   \<and> last (log_file (snd (updateFigs ''25.0 60.0 0.0 1000.0'' fresh_connected)))
       = Record [Py (Fin 25), Py (Fin 60), Py (Fin 0), Py (Fin 1000), Py (Fin 1000), Np (Fin 7)]
   \<and> evalPH (snd (updateFigs ''25.0 60.0 0.0 1000.0'' fresh_connected))
       = Inr (Np (f64_of 5.19))"
proof -
  let ?u = "updateFigs ''25.0 60.0 0.0 1000.0'' fresh_connected"
  have parse: "those (map py_float (split_ws ''25.0 60.0 0.0 1000.0''))
                 = Some [Fin 25, Fin 60, Fin 0, Fin 1000]"
    by code_simp
  have u: "?u = (None,
            fresh_connected
              \<lparr>data := [Py (Fin 25), Py (Fin 60), Py (Fin 0), Py (Fin 1000)],
               temp_lcd := Some (Py (Fin 25)),
               temp_y := push (temp_y fresh_connected) (Fin 25),
               data_pH := Some (Np (Fin 7)), ph_lcd := Some (Np (Fin 7)),
               ph_y := push (ph_y fresh_connected) (fsub (Fin 1000) (Fin 0)),
               ph_full_y := ph_full_y fresh_connected @ [fsub (Fin 1000) (Fin 0)],
               ph_full_x := ph_full_x fresh_connected @ [last (ph_full_x fresh_connected) + 1],
               log_file := log_file fresh_connected @
                 [Record [Py (Fin 25), Py (Fin 60), Py (Fin 0), Py (Fin 1000),
                          Py (fsub (Fin 1000) (Fin 0)), Np (Fin 7)]]\<rparr>)"
    by (rule first_tick [OF parse])
       (simp_all add: differences fresh_connected_fields ylim_ok_windows)
  have c: "ph_cal_dict (snd ?u) = default_cal_dict"
    by (simp add: u fresh_connected_fields)
  from evalPH_default [OF c] have e: "evalPH (snd ?u) = Inr (Np (f64_of 5.19))"
    by (simp add: u fresh_connected_fields differences mean_one_1000 mean_one_25
          returned_default_100_2_5)
  from e show ?thesis
    by (simp add: u differences fresh_connected_fields)
qed

lemma updateFigs_reject:
  assumes "those (map py_float (split_ws line)) = Some [a, b, c, d]"
    and "\<not> ylim_ok (push (temp_y s) a) \<or> raises s
         \<or> \<not> ylim_ok (push (ph_y s) (fsub d c)) \<or> \<not> ylim_ok (ph_full_y s @ [fsub d c])"
  shows "fst (updateFigs line s) \<noteq> None \<and> log_file (snd (updateFigs line s)) = log_file s"
proof (cases "raises s")
  case True
  then have "raises (s\<lparr>data := [Py a, Py b, Py c, Py d], temp_lcd := Some (Py a),
               temp_y := push (temp_y s) a\<rparr>)"
    by (simp add: raises_def)
  from evalPH_raises [OF this] assms(1) show ?thesis
    by (simp add: updateFigs_def Let_def)
next
  case False
  then have "\<not> raises (s\<lparr>data := [Py a, Py b, Py c, Py d], temp_lcd := Some (Py a),
               temp_y := push (temp_y s) a\<rparr>)"
    by (simp add: raises_def)
  from evalPH_value [OF this] obtain p
    where "evalPH (s\<lparr>data := [Py a, Py b, Py c, Py d], temp_lcd := Some (Py a),
               temp_y := push (temp_y s) a\<rparr>) = Inr p"
    by blast
  with assms False show ?thesis
    by (auto simp add: updateFigs_def Let_def py_sub_def num_op_def)
qed

lemma inf_line:
  "those (map py_float (split_ws ''inf 60.0 0.0 1.0'')) = Some [PInf, Fin 60, Fin 0, Fin 1]"
  by code_simp

lemma not_ylim_ok_inf:
  "\<not> ylim_ok [Fin 0, Fin 0, Fin 0, Fin 0, Fin 0, Fin 0, Fin 0, Fin 0, Fin 0, PInf]"
  by (simp add: ylim_ok_def py_min_def py_max_def f_lt_def)

text \<open>
  C6, as the specification states it, fails: with a calibration temperature of 0 in the
  file, the four-number line \<^verbatim>\<open>25.0 60.0 10.0 100.0\<close> appends no record, because
  \<^verbatim>\<open>evalPH\<close> raises; the temperature window has been updated all the same.
\<close>

theorem updateFigs_zero_T_counterexample:
  "those (map py_float (split_ws ''25.0 60.0 10.0 100.0''))
     = Some [Fin 25, Fin 60, Fin 10, Fin 100]
   \<and> fst (updateFigs ''25.0 60.0 10.0 100.0'' zero_T_connected) = Some ZeroDivisionError
   \<and> log_file (snd (updateFigs ''25.0 60.0 10.0 100.0'' zero_T_connected))
       = log_file zero_T_connected
   \<and> temp_y zero_T_connected
       = [Fin 0, Fin 0, Fin 0, Fin 0, Fin 0, Fin 0, Fin 0, Fin 0, Fin 0, Fin 0]
   \<and> temp_y (snd (updateFigs ''25.0 60.0 10.0 100.0'' zero_T_connected))
       = [Fin 0, Fin 0, Fin 0, Fin 0, Fin 0, Fin 0, Fin 0, Fin 0, Fin 0, Fin 25]"
proof -
  have parse: "those (map py_float (split_ws ''25.0 60.0 10.0 100.0''))
     = Some [Fin 25, Fin 60, Fin 10, Fin 100]"
    by code_simp
  have r: "raises zero_T_connected"
    by (simp add: raises_def zero_T_connected_fields default_cal_dict_def)
  have y: "ylim_ok (push (temp_y zero_T_connected) (Fin 25))"
    by (simp add: zero_T_connected_fields ylim_ok_windows)
  have "log_file (snd (updateFigs ''25.0 60.0 10.0 100.0'' zero_T_connected))
          = log_file zero_T_connected"
    "fst (updateFigs ''25.0 60.0 10.0 100.0'' zero_T_connected) = Some ZeroDivisionError"
    "temp_y (snd (updateFigs ''25.0 60.0 10.0 100.0'' zero_T_connected))
       = [Fin 0, Fin 0, Fin 0, Fin 0, Fin 0, Fin 0, Fin 0, Fin 0, Fin 0, Fin 25]"
    unfolding updateFigs_raise [OF parse y r] by (simp_all add: zero_T_connected_fields)
  with parse zero_T_connected_fields(2) show ?thesis
    by simp
qed

text \<open>
  C6, amended. In every state that the program reaches, a line of four numbers appends
  one record to the session file, and pushes one value into each window, when none of the
  four steps before the write raises: the limits of the temperature plot, of the voltage
  plot and of the trend plot, each the minimum of the plotted values minus 1 and their
  maximum plus 1, are finite, and \<^verbatim>\<open>ph7_cal/t\<close> is not a Python division by zero. The
  record has the six fields temperature, humidity, reference voltage, pH electrode
  voltage, voltage difference (pH electrode minus reference) and the pH that
  \<^verbatim>\<open>evalPH\<close> returns over the updated temperature window and the voltage window as it
  was before this sample, in this order. When one of the four steps raises, the handler
  is left by the exception and no record is appended. A line of any other shape appends
  no record and changes no window and no display.
\<close>

theorem updateFigs_record_discipline:
  "(those (map py_float (split_ws line)) = Some [a, b, c, d]
      \<and> ylim_ok (push (temp_y (run (init_state stored) evs)) a)
      \<and> \<not> (is_py (ph7_cal (ph_cal_dict (run (init_state stored) evs)))
           \<and> is_py (T (ph_cal_dict (run (init_state stored) evs)))
           \<and> is_zero (val (T (ph_cal_dict (run (init_state stored) evs)))))
      \<and> ylim_ok (push (ph_y (run (init_state stored) evs)) (fsub d c))
      \<and> ylim_ok (ph_full_y (run (init_state stored) evs) @ [fsub d c])
    \<longrightarrow> (\<exists>p. evalPH ((run (init_state stored) evs)
                        \<lparr>temp_y := push (temp_y (run (init_state stored) evs)) a\<rparr>) = Inr p
           \<and> fst (updateFigs line (run (init_state stored) evs)) = None
           \<and> data_pH (snd (updateFigs line (run (init_state stored) evs))) = Some p
           \<and> log_file (snd (updateFigs line (run (init_state stored) evs)))
               = log_file (run (init_state stored) evs)
                 @ [Record [Py a, Py b, Py c, Py d, Py (fsub d c), p]]
           \<and> temp_y (snd (updateFigs line (run (init_state stored) evs)))
               = push (temp_y (run (init_state stored) evs)) a
           \<and> ph_y (snd (updateFigs line (run (init_state stored) evs)))
               = push (ph_y (run (init_state stored) evs)) (fsub d c)
           \<and> ph_full_y (snd (updateFigs line (run (init_state stored) evs)))
               = ph_full_y (run (init_state stored) evs) @ [fsub d c]))
   \<and> (those (map py_float (split_ws line)) = Some [a, b, c, d]
      \<and> (\<not> ylim_ok (push (temp_y s) a)
          \<or> (is_py (ph7_cal (ph_cal_dict s)) \<and> is_py (T (ph_cal_dict s))
              \<and> is_zero (val (T (ph_cal_dict s))))
          \<or> \<not> ylim_ok (push (ph_y s) (fsub d c))
          \<or> \<not> ylim_ok (ph_full_y s @ [fsub d c]))
    \<longrightarrow> fst (updateFigs line s) \<noteq> None
        \<and> log_file (snd (updateFigs line s)) = log_file s)
   \<and> ((\<forall>a b c d. those (map py_float (split_ws line)) \<noteq> Some [a, b, c, d])
    \<longrightarrow> log_file (snd (updateFigs line s)) = log_file s
        \<and> temp_y (snd (updateFigs line s)) = temp_y s
        \<and> ph_y (snd (updateFigs line s)) = ph_y s
        \<and> ph_full_y (snd (updateFigs line s)) = ph_full_y s
        \<and> ph_full_x (snd (updateFigs line s)) = ph_full_x s
        \<and> temp_lcd (snd (updateFigs line s)) = temp_lcd s
        \<and> ph_lcd (snd (updateFigs line s)) = ph_lcd s)"
proof (rule conjI; (rule conjI)?; rule impI)
  let ?s = "run (init_state stored) evs"
  let ?s2 = "?s\<lparr>data := [Py a, Py b, Py c, Py d], temp_lcd := Some (Py a),
                 temp_y := push (temp_y ?s) a\<rparr>"
  assume h: "those (map py_float (split_ws line)) = Some [a, b, c, d]
      \<and> ylim_ok (push (temp_y ?s) a)
      \<and> \<not> (is_py (ph7_cal (ph_cal_dict ?s)) \<and> is_py (T (ph_cal_dict ?s))
           \<and> is_zero (val (T (ph_cal_dict ?s))))
      \<and> ylim_ok (push (ph_y ?s) (fsub d c))
      \<and> ylim_ok (ph_full_y ?s @ [fsub d c])"
  then have "\<not> raises ?s2"
    by (simp add: raises_def)
  from evalPH_value [OF this] obtain p where p: "evalPH ?s2 = Inr p"
    by blast
  have q: "evalPH (?s\<lparr>temp_y := push (temp_y ?s) a\<rparr>) = Inr p"
    unfolding p [symmetric] by (rule evalPH_cong) simp_all
  have "window_inv ?s"
    by (rule run_inv [OF init_inv])
  then have x: "ph_full_x ?s \<noteq> []"
    by (simp add: window_inv_def)
  from h have h1: "those (map py_float (split_ws line)) = Some [a, b, c, d]"
    and h2: "ylim_ok (push (temp_y ?s) a)"
    and h3: "ylim_ok (push (ph_y ?s) (fsub d c))"
    and h4: "ylim_ok (ph_full_y ?s @ [fsub d c])"
    by simp_all
  note u = updateFigs_accept [OF h1 h2 p h3 x h4]
  have "fst (updateFigs line ?s) = None
           \<and> data_pH (snd (updateFigs line ?s)) = Some p
           \<and> log_file (snd (updateFigs line ?s))
               = log_file ?s @ [Record [Py a, Py b, Py c, Py d, Py (fsub d c), p]]
           \<and> temp_y (snd (updateFigs line ?s)) = push (temp_y ?s) a
           \<and> ph_y (snd (updateFigs line ?s)) = push (ph_y ?s) (fsub d c)
           \<and> ph_full_y (snd (updateFigs line ?s)) = ph_full_y ?s @ [fsub d c]"
    unfolding u by simp
  with q show "\<exists>p. evalPH (?s\<lparr>temp_y := push (temp_y ?s) a\<rparr>) = Inr p
           \<and> fst (updateFigs line ?s) = None
           \<and> data_pH (snd (updateFigs line ?s)) = Some p
           \<and> log_file (snd (updateFigs line ?s))
               = log_file ?s @ [Record [Py a, Py b, Py c, Py d, Py (fsub d c), p]]
           \<and> temp_y (snd (updateFigs line ?s)) = push (temp_y ?s) a
           \<and> ph_y (snd (updateFigs line ?s)) = push (ph_y ?s) (fsub d c)
           \<and> ph_full_y (snd (updateFigs line ?s)) = ph_full_y ?s @ [fsub d c]"
    by blast
next
  assume "those (map py_float (split_ws line)) = Some [a, b, c, d]
      \<and> (\<not> ylim_ok (push (temp_y s) a)
          \<or> (is_py (ph7_cal (ph_cal_dict s)) \<and> is_py (T (ph_cal_dict s))
              \<and> is_zero (val (T (ph_cal_dict s))))
          \<or> \<not> ylim_ok (push (ph_y s) (fsub d c))
          \<or> \<not> ylim_ok (ph_full_y s @ [fsub d c]))"
  then show "fst (updateFigs line s) \<noteq> None
        \<and> log_file (snd (updateFigs line s)) = log_file s"
    using updateFigs_reject [of line a b c d s] by (simp add: raises_def)
next
  assume n: "\<forall>a b c d. those (map py_float (split_ws line)) \<noteq> Some [a, b, c, d]"
  have "updateFigs line s = (Some ValueError, s)
        \<or> (\<exists>vs. updateFigs line s = (None, s\<lparr>data := map Py vs\<rparr>))"
  proof (cases "those (map py_float (split_ws line))")
    case None
    then show ?thesis
      by (simp add: updateFigs_ValueError)
  next
    case (Some vs)
    with n have "length vs \<noteq> 4"
      using length4 [of vs] by blast
    from updateFigs_other_count [OF Some this] show ?thesis
      by blast
  qed
  then show "log_file (snd (updateFigs line s)) = log_file s
        \<and> temp_y (snd (updateFigs line s)) = temp_y s
        \<and> ph_y (snd (updateFigs line s)) = ph_y s
        \<and> ph_full_y (snd (updateFigs line s)) = ph_full_y s
        \<and> ph_full_x (snd (updateFigs line s)) = ph_full_x s
        \<and> temp_lcd (snd (updateFigs line s)) = temp_lcd s
        \<and> ph_lcd (snd (updateFigs line s)) = ph_lcd s"
    by auto
qed

theorem updateFigs_record_discipline_witness:
  "those (map py_float (split_ws ''25.0 60.0 10.0 100.0''))
     = Some [Fin 25, Fin 60, Fin 10, Fin 100]
   \<and> ylim_ok (push (temp_y fresh_connected) (Fin 25))
   \<and> is_py (ph7_cal (ph_cal_dict fresh_connected)) \<and> is_py (T (ph_cal_dict fresh_connected))
   \<and> \<not> is_zero (val (T (ph_cal_dict fresh_connected)))
   \<and> ylim_ok (push (ph_y fresh_connected) (fsub (Fin 100) (Fin 10)))
   \<and> ylim_ok (ph_full_y fresh_connected @ [fsub (Fin 100) (Fin 10)])
   \<and> (\<exists>p. evalPH (fresh_connected\<lparr>temp_y := push (temp_y fresh_connected) (Fin 25)\<rparr>)
              = Inr p
         \<and> fst (updateFigs ''25.0 60.0 10.0 100.0'' fresh_connected) = None
         \<and> log_file (snd (updateFigs ''25.0 60.0 10.0 100.0'' fresh_connected))
             = log_file fresh_connected
               @ [Record [Py (Fin 25), Py (Fin 60), Py (Fin 10), Py (Fin 100),
                          Py (fsub (Fin 100) (Fin 10)), p]])
   \<and> those (map py_float (split_ws ''inf 60.0 0.0 1.0'')) = Some [PInf, Fin 60, Fin 0, Fin 1]
   \<and> \<not> ylim_ok (push (temp_y fresh_connected) PInf)
   \<and> fst (updateFigs ''inf 60.0 0.0 1.0'' fresh_connected) \<noteq> None
   \<and> log_file (snd (updateFigs ''inf 60.0 0.0 1.0'' fresh_connected)) = log_file fresh_connected
   \<and> those (map py_float (split_ws ''25.0 60.0'')) = Some [Fin 25, Fin 60]
   \<and> log_file (snd (updateFigs ''25.0 60.0'' fresh_connected)) = log_file fresh_connected
   \<and> temp_y (snd (updateFigs ''25.0 60.0'' fresh_connected)) = temp_y fresh_connected
   \<and> ph_y (snd (updateFigs ''25.0 60.0'' fresh_connected)) = ph_y fresh_connected"
proof -
  have parse: "those (map py_float (split_ws ''25.0 60.0 10.0 100.0''))
     = Some [Fin 25, Fin 60, Fin 10, Fin 100]"
    by code_simp
  have y: "ylim_ok (push (temp_y fresh_connected) (Fin 25))"
    "ylim_ok (push (ph_y fresh_connected) (fsub (Fin 100) (Fin 10)))"
    "ylim_ok (ph_full_y fresh_connected @ [fsub (Fin 100) (Fin 10)])"
    by (simp_all add: fresh_connected_fields differences ylim_ok_windows)
  have k: "is_py (ph7_cal (ph_cal_dict fresh_connected))"
    "is_py (T (ph_cal_dict fresh_connected))"
    "\<not> is_zero (val (T (ph_cal_dict fresh_connected)))"
    by (simp_all add: fresh_connected_fields default_cal_dict_def)
  have parse2: "those (map py_float (split_ws ''25.0 60.0'')) = Some [Fin 25, Fin 60]"
    by code_simp
  have n: "\<not> ylim_ok (push (temp_y fresh_connected) PInf)"
    by (simp add: fresh_connected_fields not_ylim_ok_inf)
  note d1 = updateFigs_record_discipline
    [where line = "''25.0 60.0 10.0 100.0''" and a = "Fin 25" and b = "Fin 60" and c = "Fin 10"
       and d = "Fin 100" and stored = None and evs = "[Connect ''20170901_10_00_00'']",
     folded fresh_connected_def]
  from conjunct1 [OF d1] parse y k
  have a: "\<exists>p. evalPH (fresh_connected\<lparr>temp_y := push (temp_y fresh_connected) (Fin 25)\<rparr>)
              = Inr p
         \<and> fst (updateFigs ''25.0 60.0 10.0 100.0'' fresh_connected) = None
         \<and> log_file (snd (updateFigs ''25.0 60.0 10.0 100.0'' fresh_connected))
             = log_file fresh_connected
               @ [Record [Py (Fin 25), Py (Fin 60), Py (Fin 10), Py (Fin 100),
                          Py (fsub (Fin 100) (Fin 10)), p]]"
    by blast
  note d2 = updateFigs_record_discipline
    [where line = "''inf 60.0 0.0 1.0''" and a = PInf and b = "Fin 60" and c = "Fin 0"
       and d = "Fin 1" and s = fresh_connected]
  from conjunct1 [OF conjunct2 [OF d2]] inf_line n
  have b: "fst (updateFigs ''inf 60.0 0.0 1.0'' fresh_connected) \<noteq> None
     \<and> log_file (snd (updateFigs ''inf 60.0 0.0 1.0'' fresh_connected)) = log_file fresh_connected"
    by blast
  from conjunct2 [OF conjunct2 [OF updateFigs_record_discipline
      [where line = "''25.0 60.0''" and s = fresh_connected]]] parse2
  have c: "log_file (snd (updateFigs ''25.0 60.0'' fresh_connected)) = log_file fresh_connected
     \<and> temp_y (snd (updateFigs ''25.0 60.0'' fresh_connected)) = temp_y fresh_connected
     \<and> ph_y (snd (updateFigs ''25.0 60.0'' fresh_connected)) = ph_y fresh_connected"
    by simp
  from parse y k a inf_line n b parse2 c show ?thesis
    by blast
qed

text \<open>
  C7. The two bounded windows hold exactly ten values after any run of the program, so
  they never exceed the capacity; and a sample that the handler has accepted is pushed
  first in, first out: the oldest value leaves at the front and the new value, the
  temperature or the voltage difference, enters at the back.
\<close>

theorem windows_keep_capacity:
  "length (temp_y (run (init_state stored) evs)) = 10
   \<and> length (ph_y (run (init_state stored) evs)) = 10
   \<and> (those (map py_float (split_ws line)) = Some [a, b, c, d]
        \<and> fst (updateFigs line s) = None \<and> temp_y s = t0 # ts \<and> ph_y s = p0 # ps
      \<longrightarrow> temp_y (snd (updateFigs line s)) = ts @ [a]
          \<and> ph_y (snd (updateFigs line s)) = ps @ [fsub d c])"
proof -
  have "window_inv (run (init_state stored) evs)"
    by (rule run_inv [OF init_inv])
  then show ?thesis
    using updateFigs_completed_push [of line a b c d s] by (auto simp add: window_inv_def)
qed

theorem windows_keep_capacity_witness:
  "those (map py_float (split_ws ''25.0 60.0 10.0 100.0''))
     = Some [Fin 25, Fin 60, Fin 10, Fin 100]
   \<and> fst (updateFigs ''25.0 60.0 10.0 100.0'' fresh_connected) = None
   \<and> temp_y fresh_connected
       = Fin 0 # [Fin 0, Fin 0, Fin 0, Fin 0, Fin 0, Fin 0, Fin 0, Fin 0, Fin 0]
   \<and> ph_y fresh_connected
       = Fin 0 # [Fin 0, Fin 0, Fin 0, Fin 0, Fin 0, Fin 0, Fin 0, Fin 0, Fin 0]
   \<and> temp_y (snd (updateFigs ''25.0 60.0 10.0 100.0'' fresh_connected))
       = [Fin 0, Fin 0, Fin 0, Fin 0, Fin 0, Fin 0, Fin 0, Fin 0, Fin 0] @ [Fin 25]
   \<and> ph_y (snd (updateFigs ''25.0 60.0 10.0 100.0'' fresh_connected))
       = [Fin 0, Fin 0, Fin 0, Fin 0, Fin 0, Fin 0, Fin 0, Fin 0, Fin 0] @ [Fin 90]
   \<and> length (temp_y (snd (updateFigs ''25.0 60.0 10.0 100.0'' fresh_connected))) = 10"
proof -
  have parse: "those (map py_float (split_ws ''25.0 60.0 10.0 100.0''))
     = Some [Fin 25, Fin 60, Fin 10, Fin 100]"
    by code_simp
  have f: "fst (updateFigs ''25.0 60.0 10.0 100.0'' fresh_connected) = None"
    by (subst first_tick [OF parse])
       (simp_all add: differences fresh_connected_fields ylim_ok_windows)
  have t: "temp_y fresh_connected
       = Fin 0 # [Fin 0, Fin 0, Fin 0, Fin 0, Fin 0, Fin 0, Fin 0, Fin 0, Fin 0]"
    "ph_y fresh_connected
       = Fin 0 # [Fin 0, Fin 0, Fin 0, Fin 0, Fin 0, Fin 0, Fin 0, Fin 0, Fin 0]"
    by (simp_all add: fresh_connected_fields)
  from windows_keep_capacity
    [where line = "''25.0 60.0 10.0 100.0''" and s = fresh_connected and a = "Fin 25"
       and b = "Fin 60" and c = "Fin 10" and d = "Fin 100" and stored = None and evs = "[]"
       and ?t0.0 = "Fin 0" and ?p0.0 = "Fin 0"
       and ts = "[Fin 0, Fin 0, Fin 0, Fin 0, Fin 0, Fin 0, Fin 0, Fin 0, Fin 0]"
       and ps = "[Fin 0, Fin 0, Fin 0, Fin 0, Fin 0, Fin 0, Fin 0, Fin 0, Fin 0]"]
    parse f t differences
  have "temp_y (snd (updateFigs ''25.0 60.0 10.0 100.0'' fresh_connected))
       = [Fin 0, Fin 0, Fin 0, Fin 0, Fin 0, Fin 0, Fin 0, Fin 0, Fin 0] @ [Fin 25]
   \<and> ph_y (snd (updateFigs ''25.0 60.0 10.0 100.0'' fresh_connected))
       = [Fin 0, Fin 0, Fin 0, Fin 0, Fin 0, Fin 0, Fin 0, Fin 0, Fin 0] @ [Fin 90]"
    by simp
  with parse f t show ?thesis
    by simp
qed



lemma offset30_state_fields:
  "ph_cal_dict offset30_state = default_cal_dict\<lparr>ph7_cal := Py (Fin 30)\<rparr>"
  by (simp add: offset30_state_def init_state_def readJson_def)




lemma scenario2_means:
  "round2 (val (np_mean [Fin 10, Fin 12, Fin 11])) = Fin 11"
  "round2 (val (np_mean [Fin 25, Fin 25, Fin 26])) = f64_of 25.33"
  "fadd (round2 (val (np_mean [Fin 25, Fin 25, Fin 26]))) (f64_of 273.15)
     = f64_of 298.47999999999996"
  by (simp_all add: f64_eval)

lemma tie_values:
  "np_mean [Fin 0, Fin 0, Fin 0, Fin 0, Fin 0, Fin 0, Fin 0, Fin 0, Fin 0, Fin 3.75]
     = Np (Fin 0.375)"
  "fadd (round2 (Fin 0.375)) (f64_of 273.15) = f64_of 273.53"
  "round2 (fadd (Fin 0.375) (f64_of 273.15)) = f64_of 273.52"
  by (simp_all add: f64_eval)

lemma decimals_differ:
  "f64_of 298.47999999999996 \<noteq> f64_of 298.48"
  "f64_of 273.53 \<noteq> f64_of 273.52"
  by (simp_all add: f64_eval)

text \<open>
  C9, as the specification states it, fails: the program rounds the mean temperature
  first and converts to kelvin afterwards. With a mean of 0.375 it stores
  0.38 + 273.15 = 273.53, while the kelvin value 273.525 rounded to two decimal places
  is 273.52.
\<close>

theorem ph7CalButton_tie_counterexample:
  "temp_y tie_state = [Fin 0, Fin 0, Fin 0, Fin 0, Fin 0, Fin 0, Fin 0, Fin 0, Fin 0, Fin 3.75]
   \<and> np_mean (temp_y tie_state) = Np (Fin 0.375)
   \<and> T (ph_cal_dict (ph7CalButton tie_state)) = Np (f64_of 273.53)
   \<and> snd (spec_capture_neutral (ph_y tie_state) (temp_y tie_state)) = f64_of 273.52
   \<and> f64_of 273.53 \<noteq> f64_of 273.52"
proof -
  have t: "temp_y tie_state
             = [Fin 0, Fin 0, Fin 0, Fin 0, Fin 0, Fin 0, Fin 0, Fin 0, Fin 0, Fin 3.75]"
    by (simp add: tie_state_def)
  have m: "np_mean (temp_y tie_state) = Np (Fin 0.375)"
    unfolding t by (rule tie_values(1))
  have c: "T (ph_cal_dict (ph7CalButton tie_state)) = Np (f64_of 273.53)"
    using tie_values(2)
    by (simp add: ph7CalButton_def Let_def m py_add_def num_op_def np_round2_def)
  have s: "snd (spec_capture_neutral (ph_y tie_state) (temp_y tie_state)) = f64_of 273.52"
    using tie_values(3) by (simp add: spec_capture_neutral_def m)
  note n = decimals_differ(2)
  from t m c s n show ?thesis
    by blast
qed

text \<open>
  C9, amended. \<^verbatim>\<open>ph7CalButton\<close> sets the offset to the mean of the voltage window
  rounded to two decimal places, and the calibration temperature to the mean of the
  temperature window rounded to two decimal places plus 273.15, the sum not being rounded
  again; the other two constants are unchanged. For the windows 10, 12, 11 and 25, 25, 26
  this gives the offset 11 and the temperature 25.33 + 273.15, which in double arithmetic
  is 298.47999999999996 and not 298.48.
\<close>

theorem ph7CalButton_rounds_then_converts:
  "ph7_cal (ph_cal_dict (ph7CalButton s)) = Np (round2 (val (np_mean (ph_y s))))
   \<and> T (ph_cal_dict (ph7CalButton s))
       = Np (fadd (round2 (val (np_mean (temp_y s)))) (f64_of 273.15))
   \<and> ph4_cal (ph_cal_dict (ph7CalButton s)) = ph4_cal (ph_cal_dict s)
   \<and> ph10_cal (ph_cal_dict (ph7CalButton s)) = ph10_cal (ph_cal_dict s)
   \<and> ph_y scenario2 = [Fin 10, Fin 12, Fin 11]
   \<and> temp_y scenario2 = [Fin 25, Fin 25, Fin 26]
   \<and> ph7_cal (ph_cal_dict (ph7CalButton scenario2)) = Np (Fin 11)
   \<and> round2 (val (np_mean (temp_y scenario2))) = f64_of 25.33
   \<and> T (ph_cal_dict (ph7CalButton scenario2)) = Np (f64_of 298.47999999999996)
   \<and> f64_of 298.47999999999996 \<noteq> f64_of 298.48"
proof -
  have g: "ph7_cal (ph_cal_dict (ph7CalButton s)) = Np (round2 (val (np_mean (ph_y s))))"
    "T (ph_cal_dict (ph7CalButton s))
       = Np (fadd (round2 (val (np_mean (temp_y s)))) (f64_of 273.15))"
    "ph4_cal (ph_cal_dict (ph7CalButton s)) = ph4_cal (ph_cal_dict s)"
    "ph10_cal (ph_cal_dict (ph7CalButton s)) = ph10_cal (ph_cal_dict s)"
    by (simp_all add: ph7CalButton_def Let_def py_add_def num_op_def np_round2_def)
  have w: "ph_y scenario2 = [Fin 10, Fin 12, Fin 11]"
    "temp_y scenario2 = [Fin 25, Fin 25, Fin 26]"
    by (simp_all add: scenario2_def)
  have r: "round2 (val (np_mean (temp_y scenario2))) = f64_of 25.33"
    unfolding w by (rule scenario2_means(2))
  have v: "ph7_cal (ph_cal_dict (ph7CalButton scenario2)) = Np (Fin 11)"
    "T (ph_cal_dict (ph7CalButton scenario2)) = Np (f64_of 298.47999999999996)"
    using scenario2_means
    by (simp_all add: ph7CalButton_def Let_def py_add_def num_op_def np_round2_def w)
  note n = decimals_differ(1)
  from g w r v n show ?thesis
    by blast
qed

end
